theory Spec2Isabelle
  imports Main "HOL-Library.Word"
begin

section \<open>Shared vocabulary\<close>

text \<open>
  Go's \<open>error\<close> values are represented by their message. A function that can return
  normally, stay blocked at a channel operation, or panic yields an \<open>outcome\<close>.
\<close>

type_synonym error = string

datatype 'a outcome = Ok 'a | Blocked | Panic string

definition andThen :: "'a outcome \<Rightarrow> ('a \<Rightarrow> 'b outcome) \<Rightarrow> 'b outcome" where
  "andThen m f = (case m of Ok x \<Rightarrow> f x | Blocked \<Rightarrow> Blocked | Panic s \<Rightarrow> Panic s)"

definition HasPrefix :: "string \<Rightarrow> string \<Rightarrow> bool" where
  "HasPrefix s p = (take (length p) s = p)"

fun Contains :: "string \<Rightarrow> string \<Rightarrow> bool" where
  "Contains [] sub = (sub = [])"
| "Contains (c # cs) sub = (HasPrefix (c # cs) sub \<or> Contains cs sub)"

section \<open>Diameter messages (package diamcodec)\<close>

datatype avp_value = StringValue string | IntValue int

record DiameterMessage =
  IsRequest :: bool
  ApplicationId :: "32 word"
  ApplicationName :: string
  CommandCode :: "32 word"
  CommandName :: string
  HopByHopId :: "32 word"
  EndToEndId :: "32 word"
  avps :: "(string \<times> avp_value) list"

definition DIAMETER_SUCCESS :: int where
  "DIAMETER_SUCCESS = 2001"

definition DIAMETER_UNKNOWN_PEER :: int where
  "DIAMETER_UNKNOWN_PEER = 3010"

text \<open>
  Modelled from the spec: the codec's \<open>Add\<close> is not among the sources. The AVPs of a
  message are an ordered list; adding one appends it.
\<close>

definition Add :: "string \<Rightarrow> avp_value \<Rightarrow> DiameterMessage \<Rightarrow> DiameterMessage" where
  "Add name v m = m\<lparr>avps := avps m @ [(name, v)]\<rparr>"

text \<open>
  Modelled from the spec: the codec's \<open>GetAVP\<close> is not among the sources. Retrieval by
  name gives the first match, and an error when there is none.
\<close>

definition GetAVP :: "DiameterMessage \<Rightarrow> string \<Rightarrow> error + avp_value" where
  "GetAVP m name =
     (case find (\<lambda>a. fst a = name) (avps m) of
        None \<Rightarrow> Inl (''avp named '' @ name @ '' not found'')
      | Some a \<Rightarrow> Inr (snd a))"

fun digits :: "nat \<Rightarrow> nat \<Rightarrow> string" where
  "digits 0 n = []"
| "digits (Suc k) n =
     (if n < 10 then [char_of (48 + n)]
      else digits k (n div 10) @ [char_of (48 + n mod 10)])"

definition Itoa :: "int \<Rightarrow> string" where
  "Itoa i = (if i < 0 then CHR ''-'' # digits (Suc (nat (- i))) (nat (- i))
             else digits (Suc (nat i)) (nat i))"

text \<open>
  Modelled from the spec: the codec's \<open>GetString\<close> is not among the sources. A string
  valued AVP gives its text, an integer valued one its decimal rendering.
\<close>

definition GetString :: "avp_value \<Rightarrow> string" where
  "GetString v = (case v of StringValue s \<Rightarrow> s | IntValue i \<Rightarrow> Itoa i)"

text \<open>
  Modelled from the spec: the codec's \<open>GetResultCode\<close> is not among the sources. It is
  the integer value of the first Result-Code AVP, and 0 when the message has none.
\<close>

definition GetResultCode :: "DiameterMessage \<Rightarrow> int" where
  "GetResultCode m =
     (case GetAVP m ''Result-Code'' of
        Inr (IntValue i) \<Rightarrow> i
      | _ \<Rightarrow> 0)"

section \<open>Configuration seen by a peer\<close>

record DiameterPeerConf =
  DiameterHost :: string
  IPAddress :: string
  Port :: int
  ConnectionTimeoutMillis :: int
  WatchdogIntervalMillis :: int

record DiameterServerConf =
  BindAddress :: string
  ServerDiameterHost :: string
  ServerDiameterRealm :: string
  VendorId :: int
  FirmwareRevision :: int

record AppDict =
  AppType :: string
  Code :: int

record RoutingRule =
  RuleApplicationId :: string

text \<open>
  The configuration instance \<open>dp.ci\<close>. The peers table answers two questions whose
  code is not among the sources, so both are fields here: whether an Origin-Host may
  connect from a remote address, and the configuration of a named peer. The dictionary
  tells which (application, command) pairs exist.
\<close>

record ConfigurationManager =
  ValidateIncomingAddress :: "string \<Rightarrow> string \<Rightarrow> bool"
  FindPeer :: "string \<Rightarrow> DiameterPeerConf option"
  ServerConf :: DiameterServerConf
  RoutingRulesConf :: "RoutingRule list"
  AppByName :: "string \<Rightarrow> AppDict option"
  HasCommand :: "string \<Rightarrow> string \<Rightarrow> (32 word \<times> 32 word) option"

text \<open>
  Modelled from the spec: \<open>NewInstanceDiameterAnswer\<close> is not among the sources. An
  answer copies the hop-by-hop and end-to-end identifiers, the command and the
  application of its request, and carries the local Origin-Host and Origin-Realm.
\<close>

definition NewInstanceDiameterAnswer ::
  "ConfigurationManager \<Rightarrow> DiameterMessage \<Rightarrow> DiameterMessage" where
  "NewInstanceDiameterAnswer ci request =
     request\<lparr>IsRequest := False,
       avps := [(''Origin-Host'', StringValue (ServerDiameterHost (ServerConf ci))),
                (''Origin-Realm'', StringValue (ServerDiameterRealm (ServerConf ci)))]\<rparr>"

text \<open>
  Modelled from the spec: \<open>NewInstanceDiameterRequest\<close> is not among the sources. It
  fails when the dictionary has no such command; otherwise the request carries a
  hop-by-hop identifier generated by the sender (here supplied by the caller) and the
  local Origin-Host and Origin-Realm.
\<close>

definition NewInstanceDiameterRequest ::
  "ConfigurationManager \<Rightarrow> 32 word \<Rightarrow> string \<Rightarrow> string \<Rightarrow> error + DiameterMessage" where
  "NewInstanceDiameterRequest ci fresh appName cmdName =
     (case HasCommand ci appName cmdName of
        None \<Rightarrow> Inl (''command '' @ cmdName @ '' not found'')
      | Some (appId, code) \<Rightarrow>
          Inr \<lparr>IsRequest = True, ApplicationId = appId, ApplicationName = appName,
               CommandCode = code, CommandName = cmdName,
               HopByHopId = fresh, EndToEndId = fresh,
               avps = [(''Origin-Host'', StringValue (ServerDiameterHost (ServerConf ci))),
                       (''Origin-Realm'', StringValue (ServerDiameterRealm (ServerConf ci)))]\<rparr>)"

section \<open>The Diameter peer actor (diampeer/diamPeer.go)\<close>

datatype status =
  StatusConnecting | StatusConnected | StatusEngaged | StatusClosing | StatusClosed

definition EVENTLOOP_CAPACITY :: nat where
  "EVENTLOOP_CAPACITY = 100"

text \<open>A reply channel (\<open>*chan interface{}\<close>) is known by its identity.\<close>

type_synonym chan = nat

text \<open>A connection is known by the address of its remote end.\<close>

type_synonym conn = string

datatype event =
    ConnectionEstablishedMsg conn
  | ConnectionErrorMsg error
  | ReadEOFMsg
  | ReadErrorMsg error
  | WriteErrorMsg error
  | PeerUpMsg string
  | PeerCloseCommand
  | EgressDiameterMessage DiameterMessage "chan option"
  | IngressDiameterMessage DiameterMessage
  | CancelDiameterRequest "32 word"
  | WatchdogMsg

text \<open>What is sent on the control channel.\<close>

datatype control =
    PeerDownEvent "error option"
  | PeerUpEvent string
  | ControlPeerCloseCommand

text \<open>What travels on a reply channel: an error or an answer.\<close>

datatype reply = ReplyError error | ReplyMessage DiameterMessage

datatype metric =
    DiameterRequestSent | DiameterAnswerSent | DiameterRequestReceived
  | DiameterAnswerReceived | DiameterAnswerDiscarded | DiameterRequestTimeout

text \<open>
  Everything the actor does to the world outside its own fields, in the order done.
  A send on the control channel is recorded when the source performs it (its receiver,
  the peer manager, is not among the sources); a send on a reply channel is recorded
  when it completes. \<open>TickerStart\<close> carries the ticker's period in nanoseconds. Log
  lines are left out.
\<close>

datatype effect =
    ControlSend control
  | RChanSend chan reply
  | RChanClose chan
  | ConnWrite DiameterMessage
  | ConnClose
  | CancelConnect
  | TickerStop
  | TickerStart int
  | StartReadLoop
  | AwaitReadLoop
  | GoHandler DiameterMessage
  | Instrument metric string DiameterMessage

text \<open>
  The fields of the peer. \<open>eventLoopChannel\<close> holds the events sent and not yet
  received, oldest first. \<open>cancel\<close> and \<open>readLoopChannel\<close> tell whether the field is
  non-nil; \<open>watchdogTicker\<close> is the period of the current ticker in nanoseconds, or
  \<open>None\<close> for a nil ticker.

  The last two fields are not fields of the Go struct. \<open>listening\<close> tells, for each
  reply channel, whether the caller of \<open>DiameterRequest\<close> that made it is still
  going to receive from it: the channel is unbuffered and that caller is its only
  receiver. \<open>trace\<close> collects the effects.
\<close>

record DiameterPeer =
  ci :: ConfigurationManager
  PeerConfig :: DiameterPeerConf
  eventLoopChannel :: "event list"
  readLoopChannel :: bool
  status :: status
  connection :: "conn option"
  cancel :: bool
  requestsMap :: "32 word \<Rightarrow> chan option"
  watchdogTicker :: "int option"
  outstandingDWA :: int
  listening :: "chan \<Rightarrow> bool"
  trace :: "effect list"

definition emit :: "effect \<Rightarrow> DiameterPeer \<Rightarrow> DiameterPeer" where
  "emit e dp = dp\<lparr>trace := trace dp @ [e]\<rparr>"

text \<open>
  \<open>dp.eventLoopChannel <- e\<close> executed by the event loop itself. The loop is the only
  receiver, so when the buffer is full the send never completes.
\<close>

definition chan_send :: "event \<Rightarrow> DiameterPeer \<Rightarrow> DiameterPeer outcome" where
  "chan_send e dp =
     (if length (eventLoopChannel dp) < EVENTLOOP_CAPACITY
      then Ok (dp\<lparr>eventLoopChannel := eventLoopChannel dp @ [e]\<rparr>)
      else Blocked)"

text \<open>
  The same send executed by another goroutine (the read loop, a caller of
  \<open>DiameterRequest\<close>, a handler task). With the buffer full the sender stays blocked:
  it gets through only in a later state with room, and never once the event loop has
  returned or is itself blocked.
\<close>

definition chan_send_ext :: "event \<Rightarrow> DiameterPeer \<Rightarrow> DiameterPeer outcome" where
  "chan_send_ext e dp =
     (if length (eventLoopChannel dp) < EVENTLOOP_CAPACITY
      then Ok (dp\<lparr>eventLoopChannel := eventLoopChannel dp @ [e]\<rparr>)
      else Blocked)"

text \<open>
  \<open>*ch <- v\<close> executed by the event loop on a reply channel. The channel is
  unbuffered: the send completes when the caller that made the channel receives, and
  that caller then leaves its \<open>select\<close>. When the caller has already left (through the
  timer branch, or with an earlier value) the send never completes.
\<close>

definition rchan_send :: "chan \<Rightarrow> reply \<Rightarrow> DiameterPeer \<Rightarrow> DiameterPeer outcome" where
  "rchan_send ch v dp =
     (if listening dp ch
      then Ok (emit (RChanSend ch v) (dp\<lparr>listening := (listening dp)(ch := False)\<rparr>))
      else Blocked)"

text \<open>
  \<open>time.Duration\<close> is a signed 64-bit count of nanoseconds, and the product of a
  number and a unit wraps around. \<open>time.NewTicker\<close> panics when the period is not
  positive.
\<close>

definition Millisecond :: int where
  "Millisecond = 1000000"

definition Hour :: int where
  "Hour = 3600000000000"

definition Duration :: "int \<Rightarrow> int" where
  "Duration n = sint (word_of_int n :: 64 word)"

definition NewTicker :: "int \<Rightarrow> DiameterPeer \<Rightarrow> DiameterPeer outcome" where
  "NewTicker d dp =
     (if d \<le> 0 then Panic ''non-positive interval for NewTicker''
      else Ok (emit (TickerStart d) (dp\<lparr>watchdogTicker := Some d\<rparr>)))"

fun pushRoutingRules ::
  "ConfigurationManager \<Rightarrow> RoutingRule list \<Rightarrow> bool \<Rightarrow> DiameterMessage \<Rightarrow> DiameterMessage" where
  "pushRoutingRules c [] relaySet cer = cer"
| "pushRoutingRules c (rule # rules) relaySet cer =
     (if RuleApplicationId rule \<noteq> ''*'' then
        (case AppByName c (RuleApplicationId rule) of
           Some appDict \<Rightarrow>
             (if Contains (AppType appDict) ''auth''
              then pushRoutingRules c rules relaySet
                     (Add ''Auth-Application-Id'' (IntValue (Code appDict)) cer)
              else if Contains (AppType appDict) ''acct''
              then pushRoutingRules c rules relaySet
                     (Add ''Acct-Application-Id,'' (IntValue (Code appDict)) cer)
              else pushRoutingRules c rules relaySet cer)
         | None \<Rightarrow> pushRoutingRules c rules relaySet cer)
      else if \<not> relaySet then
        pushRoutingRules c rules True
          (Add ''Acct-Application-Id'' (StringValue ''Relay'')
            (Add ''Auth-Application-Id'' (StringValue ''Relay'') cer))
      else pushRoutingRules c rules relaySet cer)"

definition pushCEAttributes :: "DiameterPeer \<Rightarrow> DiameterMessage \<Rightarrow> DiameterMessage" where
  "pushCEAttributes dp cer =
     (let serverConf = ServerConf (ci dp);
          cer1 = (if BindAddress serverConf \<noteq> ''0.0.0.0''
                  then Add ''Host-IP-Address'' (StringValue (BindAddress serverConf)) cer
                  else cer);
          cer2 = Add ''Vendor-Id'' (IntValue (VendorId serverConf)) cer1;
          cer3 = Add ''Product-Name'' (StringValue ''igor'') cer2;
          cer4 = Add ''Firmware-Revision'' (IntValue (FirmwareRevision serverConf)) cer3;
          cer5 = Add ''Origin-State-Id'' (IntValue 1) cer4
      in pushRoutingRules (ci dp) (RoutingRulesConf (ci dp)) False cer5)"

text \<open>
  \<open>handleCER\<close>: the reported Origin-Host, or an error. The error answer is sent only
  when the address check or the peer lookup fails; a wrong status or a missing
  Origin-Host return the error with nothing sent.
\<close>

definition handleCER ::
  "DiameterPeer \<Rightarrow> DiameterMessage \<Rightarrow> (DiameterPeer \<times> (error + string)) outcome" where
  "handleCER dp request =
     (if status dp \<noteq> StatusConnected
      then Ok (dp, Inl ''received CER when status in not connected'')
      else
        (case GetAVP request ''Origin-Host'' of
           Inl err \<Rightarrow> Ok (dp, Inl ''Bad CEA'')
         | Inr originHostAVP \<Rightarrow>
             (case connection dp of
                None \<Rightarrow> Panic ''nil pointer dereference''
              | Some remoteAddr \<Rightarrow>
                  (let originHost = GetString originHostAVP;
                       errCea = Add ''Result-Code'' (IntValue DIAMETER_UNKNOWN_PEER)
                                  (NewInstanceDiameterAnswer (ci dp) request)
                   in if ValidateIncomingAddress (ci dp) originHost remoteAddr then
                        (case FindPeer (ci dp) originHost of
                           Some peerConfig \<Rightarrow>
                             (let dp1 = dp\<lparr>PeerConfig := peerConfig\<rparr>;
                                  cea = pushCEAttributes dp1
                                          (Add ''Result-Code'' (IntValue DIAMETER_SUCCESS)
                                             (NewInstanceDiameterAnswer (ci dp1) request))
                              in andThen (chan_send (EgressDiameterMessage cea None) dp1)
                                   (\<lambda>dp2. Ok (dp2, Inr originHost)))
                         | None \<Rightarrow>
                             andThen (chan_send (EgressDiameterMessage errCea None) dp)
                               (\<lambda>dp2. Ok (dp2, Inl ''Bad CEA'')))
                      else
                        andThen (chan_send (EgressDiameterMessage errCea None) dp)
                          (\<lambda>dp2. Ok (dp2, Inl ''Bad CEA''))))))"


subsection \<open>The cases of the event loop's type switch\<close>

text \<open>
  Each case gets the peer after the event has been taken from the channel and tells
  whether the loop goes on (\<open>Continue\<close>) or the function returns (\<open>Return\<close>).
\<close>

datatype flow = Continue | Return

definition on_ConnectionEstablished ::
  "32 word \<Rightarrow> DiameterPeer \<Rightarrow> conn \<Rightarrow> (DiameterPeer \<times> flow) outcome" where
  "on_ConnectionEstablished fresh dp c =
     (let dp1 = emit StartReadLoop (dp\<lparr>connection := Some c, readLoopChannel := True\<rparr>);
          dp2 = dp1\<lparr>status := StatusConnected\<rparr>
      in case NewInstanceDiameterRequest (ci dp2) fresh ''Base'' ''Capabilities-Exchange'' of
           Inl err \<Rightarrow> Panic ''could not create a CER''
         | Inr cer \<Rightarrow>
             andThen (chan_send (EgressDiameterMessage (pushCEAttributes dp2 cer) None) dp2)
               (\<lambda>dp3. Ok (dp3, Continue)))"

definition on_ConnectionError :: "DiameterPeer \<Rightarrow> error \<Rightarrow> (DiameterPeer \<times> flow) outcome" where
  "on_ConnectionError dp err =
     Ok (emit (ControlSend (PeerDownEvent (Some err))) (dp\<lparr>status := StatusClosed\<rparr>), Return)"

definition on_ReadEOF :: "DiameterPeer \<Rightarrow> (DiameterPeer \<times> flow) outcome" where
  "on_ReadEOF dp =
     Ok (emit (ControlSend (PeerDownEvent None)) (dp\<lparr>status := StatusClosed\<rparr>), Return)"

definition on_ReadError :: "DiameterPeer \<Rightarrow> error \<Rightarrow> (DiameterPeer \<times> flow) outcome" where
  "on_ReadError dp err =
     Ok (emit (ControlSend (PeerDownEvent (Some err))) (dp\<lparr>status := StatusClosed\<rparr>), Return)"

definition on_WriteError :: "DiameterPeer \<Rightarrow> error \<Rightarrow> (DiameterPeer \<times> flow) outcome" where
  "on_WriteError dp err =
     Ok (emit (ControlSend ControlPeerCloseCommand) (dp\<lparr>status := StatusClosing\<rparr>), Continue)"

text \<open>
  The handshake has completed. The running ticker is stopped (a nil ticker cannot be)
  and a new one made with the configured interval.
\<close>

definition on_PeerUp :: "DiameterPeer \<Rightarrow> string \<Rightarrow> (DiameterPeer \<times> flow) outcome" where
  "on_PeerUp dp host =
     (let dp1 = emit (ControlSend (PeerUpEvent host)) (dp\<lparr>status := StatusEngaged\<rparr>)
      in case watchdogTicker dp1 of
           None \<Rightarrow> Panic ''nil pointer dereference''
         | Some running \<Rightarrow>
             andThen
               (NewTicker (Duration (WatchdogIntervalMillis (PeerConfig dp1) * Millisecond))
                  (emit TickerStop dp1))
               (\<lambda>dp2. Ok (dp2, Continue)))"

text \<open>
  The close command. Between closing the connection and reporting PeerDown the source
  has only the comment \<^verbatim>\<open>TODO: Generate error for all outstanding requests\<close>: the
  pending requests are left as they are.
\<close>

definition on_PeerClose :: "DiameterPeer \<Rightarrow> (DiameterPeer \<times> flow) outcome" where
  "on_PeerClose dp =
     (let dp1 = dp\<lparr>status := StatusClosed\<rparr>;
          dp2 = (if cancel dp1 then emit CancelConnect dp1 else dp1);
          dp3 = (if connection dp2 \<noteq> None then emit ConnClose dp2 else dp2);
          dp4 = emit (ControlSend (PeerDownEvent None)) dp3
      in Ok (dp4, Return))"

text \<open>
  Sending a message. \<open>werr\<close> is what \<open>Message.WriteTo\<close> returns when it is called.
  After a failed write the code still falls through to the bookkeeping below it. The
  duplicate-identifier error and the write error go to the caller on its reply
  channel.
\<close>

definition on_Egress ::
  "error option \<Rightarrow> DiameterPeer \<Rightarrow> DiameterMessage \<Rightarrow> chan option \<Rightarrow>
   (DiameterPeer \<times> flow) outcome" where
  "on_Egress werr dp m rchan =
     (if status dp = StatusConnected \<or> status dp = StatusEngaged then
        (case (requestsMap dp (HopByHopId m), rchan) of
           (Some other, Some ch) \<Rightarrow>
             andThen (rchan_send ch (ReplyError ''Duplicated HopByHopId'') dp)
               (\<lambda>dp1. Ok (dp1, Continue))
         | _ \<Rightarrow>
             (case connection dp of
                None \<Rightarrow> Panic ''nil pointer dereference''
              | Some c \<Rightarrow>
                  andThen
                    (case werr of
                       None \<Rightarrow> Ok (emit (ConnWrite m) dp)
                     | Some err \<Rightarrow>
                         andThen (chan_send (WriteErrorMsg err) dp)
                           (\<lambda>dp1. let dp2 = dp1\<lparr>status := StatusClosing\<rparr>
                                   in case rchan of
                                        Some ch \<Rightarrow>
                                          (if IsRequest m
                                           then rchan_send ch (ReplyError err) dp2
                                           else Ok dp2)
                                      | None \<Rightarrow> Ok dp2))
                    (\<lambda>dp3. case rchan of
                              Some ch \<Rightarrow>
                                (if IsRequest m
                                 then Ok ((emit (Instrument DiameterRequestSent
                                                  (DiameterHost (PeerConfig dp3)) m) dp3)
                                           \<lparr>requestsMap := (requestsMap dp3)(HopByHopId m \<mapsto> ch)\<rparr>,
                                          Continue)
                                 else Ok (emit (Instrument DiameterAnswerSent
                                                  (DiameterHost (PeerConfig dp3)) m) dp3,
                                          Continue))
                            | None \<Rightarrow>
                                Ok (emit (Instrument DiameterAnswerSent
                                            (DiameterHost (PeerConfig dp3)) m) dp3,
                                    Continue))))
      else Ok (dp, Continue))"

definition on_IngressRequest ::
  "DiameterPeer \<Rightarrow> DiameterMessage \<Rightarrow> (DiameterPeer \<times> flow) outcome" where
  "on_IngressRequest dp m =
     (let dp1 = emit (Instrument DiameterRequestReceived (DiameterHost (PeerConfig dp)) m) dp
      in if ApplicationId m = 0 then
           (if CommandName m = ''Capabilities-Exchange'' then
              andThen (handleCER dp1 m)
                (\<lambda>(dp2, r). case r of
                     Inl err \<Rightarrow>
                       andThen (chan_send PeerCloseCommand dp2) (\<lambda>dp3. Ok (dp3, Continue))
                   | Inr originHost \<Rightarrow>
                       andThen (chan_send (PeerUpMsg originHost) (dp2\<lparr>status := StatusEngaged\<rparr>))
                         (\<lambda>dp3. Ok (dp3, Continue)))
            else if CommandName m = ''Device-Watchdog'' then
              andThen
                (chan_send
                   (EgressDiameterMessage
                      (Add ''Result-Code'' (IntValue DIAMETER_SUCCESS)
                         (NewInstanceDiameterAnswer (ci dp1) m)) None) dp1)
                (\<lambda>dp2. Ok (dp2, Continue))
            else if CommandName m = ''Disconnect-Peer'' then
              andThen
                (chan_send (EgressDiameterMessage (NewInstanceDiameterAnswer (ci dp1) m) None) dp1)
                (\<lambda>dp2. andThen (chan_send PeerCloseCommand dp2)
                          (\<lambda>dp3. Ok (dp3\<lparr>status := StatusClosing\<rparr>, Continue)))
            else Ok (dp1, Continue))
         else Ok (emit (GoHandler m) dp1, Continue))"

definition on_IngressAnswer ::
  "DiameterPeer \<Rightarrow> DiameterMessage \<Rightarrow> (DiameterPeer \<times> flow) outcome" where
  "on_IngressAnswer dp m =
     (let dp1 = emit (Instrument DiameterAnswerReceived (DiameterHost (PeerConfig dp)) m) dp
      in if ApplicationId m = 0 then
           (if CommandName m = ''Capabilities-Exchange'' then
              (let doDisconnect =
                     (case GetAVP m ''Origin-Host'' of
                        Inl err \<Rightarrow> True
                      | Inr originHostAVP \<Rightarrow>
                          (if GetString originHostAVP \<noteq> DiameterHost (PeerConfig dp1) then True
                           else if GetResultCode m \<noteq> DIAMETER_SUCCESS then True
                           else False))
               in if doDisconnect
                  then andThen (chan_send PeerCloseCommand (dp1\<lparr>status := StatusClosing\<rparr>))
                         (\<lambda>dp2. Ok (dp2, Continue))
                  else andThen (chan_send (PeerUpMsg (DiameterHost (PeerConfig dp1))) dp1)
                         (\<lambda>dp2. Ok (dp2, Continue)))
            else if CommandName m = ''Device-Watchdog'' then
              (if GetResultCode m \<noteq> DIAMETER_SUCCESS
               then andThen (chan_send PeerCloseCommand dp1)
                      (\<lambda>dp2. Ok (dp2\<lparr>status := StatusClosing\<rparr>, Continue))
               else Ok (dp1\<lparr>outstandingDWA := outstandingDWA dp1 - 1\<rparr>, Continue))
            else Ok (dp1, Continue))
         else
           (case requestsMap dp1 (HopByHopId m) of
              None \<Rightarrow>
                Ok (emit (Instrument DiameterAnswerDiscarded (DiameterHost (PeerConfig dp1)) m) dp1,
                    Continue)
            | Some respChann \<Rightarrow>
                andThen (rchan_send respChann (ReplyMessage m) dp1)
                  (\<lambda>dp2. Ok ((emit (RChanClose respChann) dp2)
                                \<lparr>requestsMap := (requestsMap dp2)(HopByHopId m := None)\<rparr>,
                              Continue))))"

definition on_Ingress ::
  "DiameterPeer \<Rightarrow> DiameterMessage \<Rightarrow> (DiameterPeer \<times> flow) outcome" where
  "on_Ingress dp m = (if IsRequest m then on_IngressRequest dp m else on_IngressAnswer dp m)"

definition on_Cancel :: "DiameterPeer \<Rightarrow> 32 word \<Rightarrow> (DiameterPeer \<times> flow) outcome" where
  "on_Cancel dp hbh =
     (case requestsMap dp hbh of
        None \<Rightarrow> Ok (dp, Continue)
      | Some respChann \<Rightarrow>
          Ok ((emit (RChanClose respChann) dp)\<lparr>requestsMap := (requestsMap dp)(hbh := None)\<rparr>,
              Continue))"

text \<open>
  The watchdog tick. The test on the unanswered requests has no \<open>else\<close> and no
  \<open>return\<close>: the request is built and sent, and the counter incremented, in both cases.
\<close>

definition maxOustandingDWA :: int where
  "maxOustandingDWA = 2"

definition on_Watchdog :: "32 word \<Rightarrow> DiameterPeer \<Rightarrow> (DiameterPeer \<times> flow) outcome" where
  "on_Watchdog fresh dp =
     andThen
       (if outstandingDWA dp > maxOustandingDWA then chan_send PeerCloseCommand dp else Ok dp)
       (\<lambda>dp1. case NewInstanceDiameterRequest (ci dp1) fresh ''Base'' ''Device-Watchdog'' of
                 Inl err \<Rightarrow> Panic ''could not create a DWR''
               | Inr dwr \<Rightarrow>
                   andThen (chan_send (EgressDiameterMessage dwr None) dp1)
                     (\<lambda>dp2. Ok (dp2\<lparr>outstandingDWA := outstandingDWA dp2 + 1\<rparr>, Continue)))"

definition eventLoop_switch ::
  "error option \<Rightarrow> 32 word \<Rightarrow> DiameterPeer \<Rightarrow> event \<Rightarrow> (DiameterPeer \<times> flow) outcome" where
  "eventLoop_switch werr fresh dp ev =
     (case ev of
        ConnectionEstablishedMsg c \<Rightarrow> on_ConnectionEstablished fresh dp c
      | ConnectionErrorMsg err \<Rightarrow> on_ConnectionError dp err
      | ReadEOFMsg \<Rightarrow> on_ReadEOF dp
      | ReadErrorMsg err \<Rightarrow> on_ReadError dp err
      | WriteErrorMsg err \<Rightarrow> on_WriteError dp err
      | PeerUpMsg host \<Rightarrow> on_PeerUp dp host
      | PeerCloseCommand \<Rightarrow> on_PeerClose dp
      | EgressDiameterMessage m rchan \<Rightarrow> on_Egress werr dp m rchan
      | IngressDiameterMessage m \<Rightarrow> on_Ingress dp m
      | CancelDiameterRequest hbh \<Rightarrow> on_Cancel dp hbh
      | WatchdogMsg \<Rightarrow> on_Watchdog fresh dp)"

subsection \<open>The loop\<close>

text \<open>The deferred function, run when \<open>eventLoop\<close> returns.\<close>

definition deferred :: "DiameterPeer \<Rightarrow> DiameterPeer" where
  "deferred dp =
     (let dp1 = (if watchdogTicker dp \<noteq> None then emit TickerStop dp else dp);
          dp2 = (if connection dp1 \<noteq> None then emit ConnClose dp1 else dp1)
      in if readLoopChannel dp2 then emit AwaitReadLoop dp2 else dp2)"

text \<open>
  One pass through the \<open>select\<close>: either the ticker is ready, or an event is received
  from the channel (with nothing to receive the loop keeps waiting).
\<close>

datatype ready = TickerFired | ChannelReady

definition eventLoop_select ::
  "ready \<Rightarrow> error option \<Rightarrow> 32 word \<Rightarrow> DiameterPeer \<Rightarrow> (DiameterPeer \<times> flow) outcome" where
  "eventLoop_select r werr fresh dp =
     (case r of
        TickerFired \<Rightarrow>
          (if status dp = StatusEngaged
           then andThen (chan_send WatchdogMsg dp) (\<lambda>dp1. Ok (dp1, Continue))
           else Ok (dp, Continue))
      | ChannelReady \<Rightarrow>
          (case eventLoopChannel dp of
             [] \<Rightarrow> Ok (dp, Continue)
           | ev # rest \<Rightarrow>
               andThen (eventLoop_switch werr fresh (dp\<lparr>eventLoopChannel := rest\<rparr>) ev)
                 (\<lambda>(dp1, f). case f of
                      Return \<Rightarrow> Ok (deferred dp1, Return)
                    | Continue \<Rightarrow> Ok (dp1, Continue))))"

text \<open>
  The loop under a schedule: at each point either the loop makes a pass (with what the
  socket write and the identifier generator would give), or another goroutine sends an
  event (with the channel full that sender is still waiting, and the loop goes on
  without its event). The run ends when the schedule does or when the function
  returns.
\<close>

datatype sched = Pass ready "error option" "32 word" | Arrive event

fun eventLoop_run :: "sched list \<Rightarrow> DiameterPeer \<Rightarrow> (DiameterPeer \<times> flow) outcome" where
  "eventLoop_run [] dp = Ok (dp, Continue)"
| "eventLoop_run (Arrive ev # rest) dp =
     (case chan_send_ext ev dp of
        Ok dp1 \<Rightarrow> eventLoop_run rest dp1
      | Blocked \<Rightarrow> eventLoop_run rest dp
      | Panic p \<Rightarrow> Panic p)"
| "eventLoop_run (Pass r werr fresh # rest) dp =
     andThen (eventLoop_select r werr fresh dp)
       (\<lambda>(dp1, f). case f of
            Return \<Rightarrow> Ok (dp1, Return)
          | Continue \<Rightarrow> eventLoop_run rest dp1)"

text \<open>
  \<open>eventLoop\<close>: the ticker is first made with a period of 999999 hours, then the loop
  runs.
\<close>

definition eventLoop :: "sched list \<Rightarrow> DiameterPeer \<Rightarrow> (DiameterPeer \<times> flow) outcome" where
  "eventLoop sch dp =
     andThen (NewTicker (Duration (999999 * Hour)) dp) (eventLoop_run sch)"


subsection \<open>The request API\<close>




section \<open>The RADIUS server socket (package radiusserver)\<close>

definition StatusOperational :: "32 word" where
  "StatusOperational = 0"

definition StatusTerminated :: "32 word" where
  "StatusTerminated = 1"

type_synonym bytes = "8 word list"

record UDPAddr =
  IP :: string
  UDPPort :: nat

record RadiusClient =
  Secret :: string

record RadiusPacket =
  Code_rp :: "8 word"
  Identifier :: "8 word"
  Authenticator :: bytes
  AVPs :: "(string \<times> string) list"

definition ACCESS_REQUEST :: "8 word" where
  "ACCESS_REQUEST = 1"

definition Zero_authenticator :: bytes where
  "Zero_authenticator = replicate 16 0"

text \<open>
  The functions of package \<open>core\<close> that the read loop calls are not among the
  sources; they are taken as given: decoding a packet, validating a request
  authenticator, and serialising a response for a secret and a request identifier.
\<close>

record RadiusCore =
  NewRadiusPacketFromBytes :: "bytes \<Rightarrow> string \<Rightarrow> bytes \<Rightarrow> error + RadiusPacket"
  ValidateRequestAuthenticator :: "bytes \<Rightarrow> string \<Rightarrow> bool"
  ToBytes :: "RadiusPacket \<Rightarrow> string \<Rightarrow> 8 word \<Rightarrow> error + bytes"

text \<open>
  The server: the clients table (its lookup by IP address), the handler, whether the
  socket has been closed, and the status word.
\<close>

record RadiusServer =
  radiusClients :: "string \<Rightarrow> error + RadiusClient"
  handler :: "RadiusPacket \<Rightarrow> error + RadiusPacket"
  socketClosed :: bool
  status_rs :: "32 word"

datatype rs_effect =
    RecordRadiusServerDrop string string
  | RecordRadiusServerRequest string string
  | RecordRadiusServerResponse string string
  | Go RadiusPacket string UDPAddr
  | SocketWriteTo bytes UDPAddr

definition Close :: "RadiusServer \<Rightarrow> RadiusServer" where
  "Close rs = rs\<lparr>status_rs := StatusTerminated, socketClosed := True\<rparr>"

text \<open>
  The goroutine started for an accepted packet. \<open>werr\<close> is what the socket write
  returns when it is made; \<open>SocketWriteTo\<close> records the call to \<open>socket.WriteTo\<close>.
\<close>

definition serve ::
  "RadiusCore \<Rightarrow> RadiusServer \<Rightarrow> error option \<Rightarrow> RadiusPacket \<Rightarrow> string \<Rightarrow> UDPAddr \<Rightarrow>
   rs_effect list" where
  "serve core rs werr radiusPacket secret addr =
     (let code = Code_rp radiusPacket
      in case handler rs radiusPacket of
           Inl err \<Rightarrow> [RecordRadiusServerDrop (IP addr) (Itoa (uint code))]
         | Inr response \<Rightarrow>
             (case ToBytes core response secret (Identifier radiusPacket) of
                Inl err \<Rightarrow> [RecordRadiusServerDrop (IP addr) (Itoa (uint code))]
              | Inr respBuf \<Rightarrow>
                  (case werr of
                     Some err \<Rightarrow>
                       [SocketWriteTo respBuf addr,
                        RecordRadiusServerDrop (IP addr) (Itoa (uint code))]
                   | None \<Rightarrow>
                       [SocketWriteTo respBuf addr,
                        RecordRadiusServerResponse (IP addr) (Itoa (uint code))])))"

text \<open>
  One pass of the read loop on what \<open>socket.ReadFrom\<close> gave. The buffer holds 4096
  bytes. The authenticator is validated only when the code is not Access-Request.
\<close>

datatype read_result = ReadOk bytes UDPAddr | ReadErr error

datatype pass = Again "rs_effect list" | Return_rs | Panic_rs error

definition readLoop_pass :: "RadiusCore \<Rightarrow> RadiusServer \<Rightarrow> read_result \<Rightarrow> pass" where
  "readLoop_pass core rs rd =
     (case rd of
        ReadErr err \<Rightarrow>
          (if status_rs rs = StatusTerminated then Return_rs else Panic_rs err)
      | ReadOk datagram clientAddr \<Rightarrow>
          (let reqBuf = take 4096 datagram;
               clientIPAddr = IP clientAddr
           in case radiusClients rs clientIPAddr of
                Inl err \<Rightarrow> Again [RecordRadiusServerDrop clientIPAddr ''0'']
              | Inr radiusClient \<Rightarrow>
                  (case NewRadiusPacketFromBytes core reqBuf (Secret radiusClient)
                          Zero_authenticator of
                     Inl err \<Rightarrow> Again []
                   | Inr radiusPacket \<Rightarrow>
                       (if Code_rp radiusPacket \<noteq> ACCESS_REQUEST then
                          (if ValidateRequestAuthenticator core reqBuf (Secret radiusClient)
                           then Again
                                  [RecordRadiusServerRequest clientIPAddr
                                     (Itoa (uint (Code_rp radiusPacket))),
                                   Go radiusPacket (Secret radiusClient) clientAddr]
                           else Again
                                  [RecordRadiusServerDrop clientIPAddr
                                     (Itoa (uint (Code_rp radiusPacket)))])
                        else Again
                               [RecordRadiusServerRequest clientIPAddr
                                  (Itoa (uint (Code_rp radiusPacket))),
                                Go radiusPacket (Secret radiusClient) clientAddr]))))"

text \<open>
  The loop under a schedule of what happens around it: the socket gives a read
  result, or \<open>Close\<close> is called from elsewhere. A read on a closed socket fails.
  The run ends with the loop still reading (the schedule is over), returned, or
  panicked; the effects so far come with it.
\<close>

datatype rs_sched = SocketRead read_result | CloseCalled

datatype loop_end = Reading | Returned | Panicked error

definition ReadFrom :: "RadiusServer \<Rightarrow> read_result \<Rightarrow> read_result" where
  "ReadFrom rs rd =
     (if socketClosed rs then ReadErr ''use of closed network connection'' else rd)"

fun readLoop ::
  "RadiusCore \<Rightarrow> rs_sched list \<Rightarrow> RadiusServer \<Rightarrow> rs_effect list \<Rightarrow>
   RadiusServer \<times> rs_effect list \<times> loop_end" where
  "readLoop core [] rs done = (rs, done, Reading)"
| "readLoop core (CloseCalled # rest) rs done = readLoop core rest (Close rs) done"
| "readLoop core (SocketRead rd # rest) rs done =
     (case readLoop_pass core rs (ReadFrom rs rd) of
        Again effs \<Rightarrow> readLoop core rest rs (done @ effs)
      | Return_rs \<Rightarrow> (rs, done, Returned)
      | Panic_rs err \<Rightarrow> (rs, done, Panicked err))"

section \<open>The FreeRADIUS dictionary parser (core/freeradius_parser.go)\<close>

subsection \<open>Library functions on strings\<close>

text \<open>
  Go strings are byte sequences, as \<open>string\<close> is here. \<open>strings.TrimSpace\<close> and
  \<open>strings.Fields\<close> take as white space the characters of \<open>unicode.IsSpace\<close> in
  their UTF-8 encoding: tab, line feed, vertical tab, form feed, carriage return,
  space, U+0085, U+00A0, U+1680, U+2000 to U+200A, U+2028, U+2029, U+202F, U+205F and
  U+3000. \<open>spaceLen\<close> is the number of bytes of the white space character a string
  starts with, 0 when it starts with none; \<open>spaceLenEnd\<close> is the same for the
  character a string ends with.
\<close>

definition asciiSpace :: "nat \<Rightarrow> bool" where
  "asciiSpace b = (b \<in> set [9, 10, 11, 12, 13, 32])"

definition spaceLen :: "string \<Rightarrow> nat" where
  "spaceLen s =
     (case map of_char (take 3 s) of
        [] \<Rightarrow> 0
      | b0 # bs \<Rightarrow>
          (if asciiSpace b0 then 1
           else if b0 = 0xC2 then
             (case bs of
                [] \<Rightarrow> 0
              | b1 # bs' \<Rightarrow> if b1 \<in> set [0x85, 0xA0] then 2 else 0)
           else if b0 \<in> set [0xE1, 0xE2, 0xE3] then
             (case bs of
                [b1, b2] \<Rightarrow>
                  (if b0 = 0xE1 \<and> b1 = 0x9A \<and> b2 = 0x80 then 3
                   else if b0 = 0xE2 \<and> b1 = 0x80 \<and> 0x80 \<le> b2 \<and> b2 \<le> 0x8A then 3
                   else if b0 = 0xE2 \<and> b1 = 0x80 \<and> b2 \<in> set [0xA8, 0xA9, 0xAF] then 3
                   else if b0 = 0xE2 \<and> b1 = 0x81 \<and> b2 = 0x9F then 3
                   else if b0 = 0xE3 \<and> b1 = 0x80 \<and> b2 = 0x80 then 3
                   else 0)
              | _ \<Rightarrow> 0)
           else 0))"

definition spaceLenEnd :: "string \<Rightarrow> nat" where
  "spaceLenEnd s =
     (if s = [] then 0
      else if asciiSpace (of_char (last s)) then 1
      else if 2 \<le> length s \<and> spaceLen (drop (length s - 2) s) = 2 then 2
      else if 3 \<le> length s \<and> spaceLen (drop (length s - 3) s) = 3 then 3
      else 0)"

text \<open>
  Dropping the leading white space; the first argument counts the bytes still to drop
  of a character that has been recognised.
\<close>

fun trimLeft :: "nat \<Rightarrow> string \<Rightarrow> string" where
  "trimLeft k [] = []"
| "trimLeft (Suc k) (c # cs) = trimLeft k cs"
| "trimLeft 0 (c # cs) =
     (case spaceLen (c # cs) of 0 \<Rightarrow> c # cs | Suc n \<Rightarrow> trimLeft n cs)"

text \<open>
  Dropping the trailing white space; each round removes one character, so as many
  rounds as the string has bytes are enough.
\<close>

fun trimRight :: "nat \<Rightarrow> string \<Rightarrow> string" where
  "trimRight 0 s = s"
| "trimRight (Suc n) s =
     (case spaceLenEnd s of 0 \<Rightarrow> s | Suc k \<Rightarrow> trimRight n (take (length s - Suc k) s))"

definition TrimSpace :: "string \<Rightarrow> string" where
  "TrimSpace s = trimRight (length s) (trimLeft 0 s)"

fun IndexByte :: "string \<Rightarrow> char \<Rightarrow> int" where
  "IndexByte [] c = - 1"
| "IndexByte (x # xs) c =
     (if x = c then 0
      else (let i = IndexByte xs c in if i < 0 then - 1 else i + 1))"

text \<open>
  \<open>strings.Fields\<close>: the maximal runs of bytes between white space characters. The
  first argument counts the bytes still to skip of a white space character, the last
  is the word being collected.
\<close>

fun fieldsFrom :: "nat \<Rightarrow> string \<Rightarrow> string \<Rightarrow> string list" where
  "fieldsFrom k [] cur = (if cur = [] then [] else [cur])"
| "fieldsFrom (Suc k) (c # cs) cur = fieldsFrom k cs cur"
| "fieldsFrom 0 (c # cs) cur =
     (case spaceLen (c # cs) of
        0 \<Rightarrow> fieldsFrom 0 cs (cur @ [c])
      | Suc n \<Rightarrow> (if cur = [] then fieldsFrom n cs [] else cur # fieldsFrom n cs []))"

definition Fields :: "string \<Rightarrow> string list" where
  "Fields s = fieldsFrom 0 s []"

fun splitFrom :: "char \<Rightarrow> string \<Rightarrow> string \<Rightarrow> string list" where
  "splitFrom sep [] cur = [cur]"
| "splitFrom sep (c # cs) cur =
     (if c = sep then cur # splitFrom sep cs [] else splitFrom sep cs (cur @ [c]))"

text \<open>\<open>strings.Split\<close> with a separator of one byte.\<close>

definition Split :: "string \<Rightarrow> char \<Rightarrow> string list" where
  "Split s sep = splitFrom sep s []"

definition isDigit :: "char \<Rightarrow> bool" where
  "isDigit c = (48 \<le> (of_char c :: nat) \<and> (of_char c :: nat) \<le> 57)"

definition digitsValue :: "string \<Rightarrow> int" where
  "digitsValue s = foldl (\<lambda>a c. 10 * a + (int (of_char c) - 48)) 0 s"

text \<open>
  \<open>strconv.Atoi\<close>: an optional sign and at least one decimal digit, within the range
  of a 64-bit \<open>int\<close>.
\<close>

definition Atoi :: "string \<Rightarrow> error + int" where
  "Atoi s =
     (let neg = (case s of [] \<Rightarrow> False | c # r \<Rightarrow> c = CHR ''-'');
          body = (case s of
                    [] \<Rightarrow> []
                  | c # r \<Rightarrow> if c = CHR ''-'' then r else if c = CHR ''+'' then r else s)
      in if body = [] then Inl ''invalid syntax''
         else if list_all isDigit body then
           (let v = (if neg then - digitsValue body else digitsValue body)
            in if v < - (2 ^ 63) then Inl ''value out of range''
               else if 2 ^ 63 - 1 < v then Inl ''value out of range''
               else Inr v)
         else Inl ''invalid syntax'')"

text \<open>
  \<open>bufio.Scanner\<close> with its default line splitter: lines end at a line feed, one
  trailing carriage return is dropped, and a last line without line feed counts when
  it is not empty. A line of 65536 bytes or more ends the scan; the parser does not
  look at the scanner's error, so the input then ends there for it.
\<close>

definition MaxScanTokenSize :: nat where
  "MaxScanTokenSize = 64 * 1024"

fun splitLines :: "string \<Rightarrow> string \<Rightarrow> string list" where
  "splitLines [] cur = (if cur = [] then [] else [cur])"
| "splitLines (c # cs) cur =
     (if c = char_of (10 :: nat) then cur # splitLines cs [] else splitLines cs (cur @ [c]))"

definition dropCR :: "string \<Rightarrow> string" where
  "dropCR l = (if l = [] then l else if last l = char_of (13 :: nat) then butlast l else l)"

definition ScanLines :: "string \<Rightarrow> string list" where
  "ScanLines s = map dropCR (takeWhile (\<lambda>l. length l < MaxScanTokenSize) (splitLines s []))"

subsection \<open>The dictionary being built\<close>

record jVendor =
  VendorId_v :: "32 word"
  VendorName :: string

record jRadiusAVP =
  Code_avp :: "8 word"
  Name :: string
  Type :: string
  Tagged :: bool
  Encrypted :: bool
  Salted :: bool
  Withlen :: bool
  EnumValues :: "(string \<times> int) list option"

record jRadiusVendorAVPs =
  VendorId_a :: "32 word"
  Attributes :: "jRadiusAVP list"

record jRadiusDict =
  Vendors :: "jVendor list"
  Avps :: "jRadiusVendorAVPs list"

text \<open>
  A load ends with the dictionary, with an error value, with a panic, or (in this
  model only) with the bound on nested includes used up.
\<close>

datatype 'a load = Loaded 'a | LoadError error | LoadPanic string | OutOfFuel

subsection \<open>The parser\<close>

definition parseRadiusType :: "string \<Rightarrow> string outcome" where
  "parseRadiusType t =
     (if t \<in> set [''integer'', ''byte'', ''short'', ''signed'', ''time_delta''] then Ok ''Integer''
      else if t = ''string'' then Ok ''String''
      else if t \<in> set [''octets'', ''abinary'', ''struct''] then Ok ''Octets''
      else if t = ''ipaddr'' then Ok ''Address''
      else if t = ''date'' then Ok ''Time''
      else if t = ''ipv6addr'' then Ok ''IPv6Address''
      else if t = ''ipv6prefix'' then Ok ''IPv6Prefix''
      else if t = ''ifid'' then Ok ''InterfaceId''
      else if t = ''integer64'' then Ok ''Integer64''
      else if t = ''vsa'' then Ok ''VSA''
      else if HasPrefix t ''octets'' then Ok ''octets''
      else Panic (''unrecognized attribute type '' @ t))"

text \<open>The flags of an attribute: tagged, encrypted, salted, withlen.\<close>

record attr_flags =
  tagged :: bool
  encrypted :: bool
  salted :: bool
  withlen :: bool

text \<open>The loop over the comma separated options; \<open>None\<close> is the error return.\<close>

fun parseOptions :: "string list \<Rightarrow> attr_flags \<Rightarrow> attr_flags option" where
  "parseOptions [] fl = Some fl"
| "parseOptions (option # options) fl =
     (if option = ''has_tag'' then parseOptions options (fl\<lparr>tagged := True\<rparr>)
      else if option = ''encrypt=1'' then parseOptions options (fl\<lparr>encrypted := True\<rparr>)
      else if option = ''encrypt=2''
        then parseOptions options (fl\<lparr>salted := True, withlen := True\<rparr>)
      else if option = ''encrypt=8''
        then parseOptions options (fl\<lparr>tagged := True, salted := True\<rparr>)
      else if option = ''encrypt=9'' then parseOptions options (fl\<lparr>salted := True\<rparr>)
      else if option = ''abinary'' then parseOptions options fl
      else None)"

definition findVendorId :: "jVendor list \<Rightarrow> string \<Rightarrow> 32 word" where
  "findVendorId vs name =
     (case find (\<lambda>v. VendorName v = name) vs of None \<Rightarrow> 0 | Some v \<Rightarrow> VendorId_v v)"

fun findAvpsIndex :: "jRadiusVendorAVPs list \<Rightarrow> 32 word \<Rightarrow> nat \<Rightarrow> nat option" where
  "findAvpsIndex [] vendorId i = None"
| "findAvpsIndex (a # as) vendorId i =
     (if VendorId_a a = vendorId then Some i else findAvpsIndex as vendorId (Suc i))"

fun setEnum :: "(string \<times> int) list \<Rightarrow> string \<Rightarrow> int \<Rightarrow> (string \<times> int) list" where
  "setEnum [] k v = [(k, v)]"
| "setEnum ((k', v') # es) k v = (if k' = k then (k, v) # es else (k', v') # setEnum es k v)"

fun addValue :: "jRadiusAVP list \<Rightarrow> string \<Rightarrow> string \<Rightarrow> int \<Rightarrow> jRadiusAVP list" where
  "addValue [] name enumName val = []"
| "addValue (attr # attrs) name enumName val =
     (if Name attr = name
      then attr\<lparr>EnumValues :=
                  Some (setEnum (case EnumValues attr of None \<Rightarrow> [] | Some es \<Rightarrow> es)
                          enumName val)\<rparr> # attrs
      else attr # addValue attrs name enumName val)"

definition parseInclude ::
  "(string \<Rightarrow> jRadiusDict \<Rightarrow> jRadiusDict load) \<Rightarrow> string list \<Rightarrow> jRadiusDict \<times> nat \<Rightarrow>
   (jRadiusDict \<times> nat) load" where
  "parseInclude incl words st =
     (if length words < 2 then LoadPanic ''index out of range''
      else case incl (words ! 1) (fst st) of
             Loaded d \<Rightarrow> Loaded (d, snd st)
           | LoadError e \<Rightarrow> LoadError (''dictionary '' @ words ! 1 @ '' with error '' @ e)
           | LoadPanic p \<Rightarrow> LoadPanic p
           | OutOfFuel \<Rightarrow> OutOfFuel)"

definition parseVendor ::
  "string \<Rightarrow> string list \<Rightarrow> jRadiusDict \<times> nat \<Rightarrow> (jRadiusDict \<times> nat) load" where
  "parseVendor line words st =
     (if length words < 3 then LoadPanic ''index out of range''
      else case Atoi (words ! 2) of
             Inl err \<Rightarrow> LoadError (''invalid VENDOR '' @ line)
           | Inr vendorId \<Rightarrow>
               Loaded
                 ((fst st)\<lparr>Vendors := Vendors (fst st) @
                              [\<lparr>VendorId_v = word_of_int vendorId, VendorName = words ! 1\<rparr>],
                           Avps := Avps (fst st) @
                              [\<lparr>VendorId_a = word_of_int vendorId, Attributes = []\<rparr>]\<rparr>,
                  snd st))"

definition parseBeginVendor ::
  "string list \<Rightarrow> jRadiusDict \<times> nat \<Rightarrow> (jRadiusDict \<times> nat) load" where
  "parseBeginVendor words st =
     (if length words < 2 then LoadPanic ''index out of range''
      else (let vendorId = findVendorId (Vendors (fst st)) (words ! 1)
            in if vendorId = 0 then LoadError (''vendor '' @ words ! 1 @ '' not found'')
               else (case findAvpsIndex (Avps (fst st)) vendorId 0 of
                       Some i \<Rightarrow> Loaded (fst st, i)
                     | None \<Rightarrow> Loaded st)))"

definition parseAttribute ::
  "string \<Rightarrow> string list \<Rightarrow> jRadiusDict \<times> nat \<Rightarrow> (jRadiusDict \<times> nat) load" where
  "parseAttribute line words st =
     (if length words < 4 then LoadError (''invalid ATTRIBUTE '' @ line)
      else case Atoi (words ! 2) of
             Inl err \<Rightarrow> LoadError (''invalid ATTRIBUTE '' @ line)
           | Inr code \<Rightarrow>
               (case (if 4 < length words
                      then parseOptions (Split (words ! 4) (CHR '',''))
                             \<lparr>tagged = False, encrypted = False, salted = False, withlen = False\<rparr>
                      else Some \<lparr>tagged = False, encrypted = False, salted = False,
                                 withlen = False\<rparr>) of
                  None \<Rightarrow> LoadError (''invalid ATTRIBUTE '' @ line)
                | Some fl \<Rightarrow>
                    (case parseRadiusType (words ! 3) of
                       Panic p \<Rightarrow> LoadPanic p
                     | Blocked \<Rightarrow> LoadPanic ''''
                     | Ok radiusType \<Rightarrow>
                         (if radiusType \<noteq> ''VSA'' then
                            (if snd st < length (Avps (fst st)) then
                               Loaded
                                 ((fst st)\<lparr>Avps := (Avps (fst st))
                                     [snd st :=
                                        (Avps (fst st) ! snd st)
                                          \<lparr>Attributes :=
                                             Attributes (Avps (fst st) ! snd st) @
                                               [\<lparr>Code_avp = word_of_int code,
                                                 Name = words ! 1,
                                                 Type = radiusType,
                                                 Tagged = tagged fl,
                                                 Encrypted = encrypted fl,
                                                 Salted = salted fl,
                                                 Withlen = withlen fl,
                                                 EnumValues = None\<rparr>]\<rparr>]\<rparr>,
                                  snd st)
                             else LoadPanic ''index out of range'')
                          else Loaded st))))"

definition parseValue ::
  "string \<Rightarrow> string list \<Rightarrow> jRadiusDict \<times> nat \<Rightarrow> (jRadiusDict \<times> nat) load" where
  "parseValue line words st =
     (if length words < 4 then LoadError (''invalid VALUE '' @ line)
      else case Atoi (words ! 3) of
             Inl err \<Rightarrow> LoadError (''invalid VALUE '' @ line)
           | Inr val \<Rightarrow>
               (if snd st < length (Avps (fst st)) then
                  Loaded
                    ((fst st)\<lparr>Avps := (Avps (fst st))
                        [snd st :=
                           (Avps (fst st) ! snd st)
                             \<lparr>Attributes :=
                                addValue (Attributes (Avps (fst st) ! snd st))
                                  (words ! 1) (words ! 2) val\<rparr>]\<rparr>,
                     snd st)
                else LoadPanic ''index out of range''))"

text \<open>
  What is left of a line for parsing: the line without surrounding white space, cut
  at the first \<open>#\<close> (a line that starts with \<open>#\<close> is skipped before this).
\<close>

definition codePart :: "string \<Rightarrow> string" where
  "codePart text =
     (let trimmed = TrimSpace text;
          cpos = IndexByte trimmed (CHR ''#'')
      in if 0 \<le> cpos then take (nat cpos) trimmed else trimmed)"

text \<open>
  One line of the file, on the dictionary and the index of the current vendor's
  attributes. \<open>incl\<close> is the recursive call for an included file. A first word that is
  none of the six keywords matches no case of the \<open>switch\<close>.
\<close>

definition parseLine ::
  "(string \<Rightarrow> jRadiusDict \<Rightarrow> jRadiusDict load) \<Rightarrow> string \<Rightarrow> jRadiusDict \<times> nat \<Rightarrow>
   (jRadiusDict \<times> nat) load" where
  "parseLine incl text st =
     (if HasPrefix (TrimSpace text) ''#'' then Loaded st
      else (let line = codePart text;
                words = Fields line
            in if length words < 1 then Loaded st
               else if words ! 0 = ''$INCLUDE'' then parseInclude incl words st
               else if words ! 0 = ''VENDOR'' then parseVendor line words st
               else if words ! 0 = ''BEGIN-VENDOR'' then parseBeginVendor words st
               else if words ! 0 = ''END-VENDOR'' then Loaded (fst st, 0)
               else if words ! 0 = ''ATTRIBUTE'' then parseAttribute line words st
               else if words ! 0 = ''VALUE'' then parseValue line words st
               else Loaded st))"

text \<open>The loop over the scanned lines; it stops at the first error or panic.\<close>

fun parseLines ::
  "(string \<Rightarrow> jRadiusDict \<Rightarrow> jRadiusDict load) \<Rightarrow> string list \<Rightarrow> jRadiusDict \<times> nat \<Rightarrow>
   (jRadiusDict \<times> nat) load" where
  "parseLines incl [] st = Loaded st"
| "parseLines incl (text # rest) st =
     (case parseLine incl text st of
        Loaded st' \<Rightarrow> parseLines incl rest st'
      | LoadError e \<Rightarrow> LoadError e
      | LoadPanic p \<Rightarrow> LoadPanic p
      | OutOfFuel \<Rightarrow> OutOfFuel)"

text \<open>
  The dictionary and vendor index a call starts from: the standard attributes come
  first, and are created if the dictionary has no attribute list yet.
\<close>

definition startState :: "jRadiusDict \<Rightarrow> jRadiusDict \<times> nat" where
  "startState dict =
     (if Avps dict = [] then dict\<lparr>Avps := [\<lparr>VendorId_a = 0, Attributes = []\<rparr>]\<rparr> else dict, 0)"

text \<open>
  \<open>ParseFreeradiusDictionary\<close>. \<open>c\<close> is the configuration manager's
  \<open>GetBytesConfigObject\<close>, whose code is not among the sources. The first argument
  bounds the depth of nested includes, which the source leaves unbounded.
\<close>

primrec ParseFreeradiusDictionary ::
  "nat \<Rightarrow> (string \<Rightarrow> error + string) \<Rightarrow> string \<Rightarrow> jRadiusDict \<Rightarrow> jRadiusDict load" where
  "ParseFreeradiusDictionary 0 c configObj dict = OutOfFuel"
| "ParseFreeradiusDictionary (Suc n) c configObj dict =
     (case c configObj of
        Inl err \<Rightarrow> LoadError err
      | Inr dictBytes \<Rightarrow>
          (case parseLines (ParseFreeradiusDictionary n c) (ScanLines dictBytes)
                  (startState dict) of
             Loaded st \<Rightarrow> Loaded (fst st)
           | LoadError e \<Rightarrow> LoadError e
           | LoadPanic p \<Rightarrow> LoadPanic p
           | OutOfFuel \<Rightarrow> OutOfFuel))"

section \<open>Concrete configurations and states\<close>

definition example_peerconf :: DiameterPeerConf where
  "example_peerconf =
     \<lparr>DiameterHost = ''client.igor'', IPAddress = ''10.0.0.1'', Port = 3868,
      ConnectionTimeoutMillis = 0, WatchdogIntervalMillis = 100\<rparr>"

definition example_ci :: ConfigurationManager where
  "example_ci =
     \<lparr>ValidateIncomingAddress = (\<lambda>host addr. host = ''client.igor'' \<and> addr = ''10.0.0.1''),
      FindPeer = (\<lambda>host. if host = ''client.igor'' then Some example_peerconf else None),
      ServerConf = \<lparr>BindAddress = ''0.0.0.0'', ServerDiameterHost = ''server.igor'',
                    ServerDiameterRealm = ''igor'', VendorId = 1, FirmwareRevision = 1\<rparr>,
      RoutingRulesConf = [],
      AppByName = (\<lambda>name. None),
      HasCommand = (\<lambda>app cmd. if app = ''Base'' then
                                 (if cmd = ''Device-Watchdog'' then Some (0, 280)
                                  else if cmd = ''Capabilities-Exchange'' then Some (0, 257)
                                  else None)
                               else None)\<rparr>"

text \<open>
  An engaged peer with one pending request: hop-by-hop identifier 7, reply channel 3.
  The callers that made reply channels 3 and 5 are receiving on them.
\<close>

definition example_peer :: DiameterPeer where
  "example_peer =
     \<lparr>ci = example_ci, PeerConfig = example_peerconf,
      eventLoopChannel = [], readLoopChannel = True, status = StatusEngaged,
      connection = Some ''10.0.0.1'', cancel = False,
      requestsMap = Map.empty(7 \<mapsto> 3), watchdogTicker = Some 100000000,
      outstandingDWA = 3, listening = (\<lambda>ch. ch = 3 \<or> ch = 5), trace = []\<rparr>"

definition example_dwr :: DiameterMessage where
  "example_dwr =
     \<lparr>IsRequest = True, ApplicationId = 0, ApplicationName = ''Base'',
      CommandCode = 280, CommandName = ''Device-Watchdog'',
      HopByHopId = 9, EndToEndId = 9,
      avps = [(''Origin-Host'', StringValue ''server.igor''),
              (''Origin-Realm'', StringValue ''igor'')]\<rparr>"

text \<open>A Capabilities-Exchange message of the base application with the given AVPs.\<close>

definition example_ce :: "bool \<Rightarrow> (string \<times> avp_value) list \<Rightarrow> DiameterMessage" where
  "example_ce isReq as =
     \<lparr>IsRequest = isReq, ApplicationId = 0, ApplicationName = ''Base'',
      CommandCode = 257, CommandName = ''Capabilities-Exchange'',
      HopByHopId = 1, EndToEndId = 1, avps = as\<rparr>"

text \<open>A message of application 4 (not the base application) with hop-by-hop identifier \<open>h\<close>.\<close>

definition example_app :: "bool \<Rightarrow> 32 word \<Rightarrow> DiameterMessage" where
  "example_app isReq h =
     \<lparr>IsRequest = isReq, ApplicationId = 4, ApplicationName = ''Credit-Control'',
      CommandCode = 272, CommandName = ''Credit-Control'',
      HopByHopId = h, EndToEndId = h, avps = []\<rparr>"

text \<open>
  A RADIUS core that decodes the header of a packet of at least twenty bytes, accepts
  a request authenticator made of sevens, and serialises every response but
  Access-Reject; a server with one client and a handler for Access-Request and
  Accounting-Request.
\<close>

definition example_core :: RadiusCore where
  "example_core =
     \<lparr>NewRadiusPacketFromBytes =
        (\<lambda>buf secret auth.
           if length buf < 20 then Inl ''short packet''
           else Inr \<lparr>Code_rp = hd buf, Identifier = hd (tl buf),
                     Authenticator = take 16 (drop 4 buf), AVPs = []\<rparr>),
      ValidateRequestAuthenticator = (\<lambda>buf secret. take 16 (drop 4 buf) = replicate 16 7),
      ToBytes = (\<lambda>p secret ident.
                   if Code_rp p = 3 then Inl ''cannot serialize''
                   else Inr ([Code_rp p, ident] @ [0, 20] @ Authenticator p))\<rparr>"

definition example_server :: RadiusServer where
  "example_server =
     \<lparr>radiusClients = (\<lambda>ip. if ip = ''192.168.0.1'' then Inr \<lparr>Secret = ''s''\<rparr>
                              else Inl ''client not found''),
      handler = (\<lambda>p. if Code_rp p = 1 then Inr (p\<lparr>Code_rp := 2\<rparr>)
                      else if Code_rp p = 4 then Inr (p\<lparr>Code_rp := 5\<rparr>)
                      else Inl ''no handler''),
      socketClosed = False,
      status_rs = StatusOperational\<rparr>"

definition example_datagram :: "8 word \<Rightarrow> 8 word \<Rightarrow> bytes" where
  "example_datagram code fill = [code, 9, 0, 20] @ replicate 16 fill"

definition example_addr :: UDPAddr where
  "example_addr = \<lparr>IP = ''192.168.0.1'', UDPPort = 1812\<rparr>"

definition example_packet :: "8 word \<Rightarrow> 8 word \<Rightarrow> RadiusPacket" where
  "example_packet code fill =
     \<lparr>Code_rp = code, Identifier = 9, Authenticator = replicate 16 fill, AVPs = []\<rparr>"

text \<open>Dictionary files by name, and an empty dictionary to load them into.\<close>

definition example_files :: "string \<Rightarrow> error + string" where
  "example_files name =
     (if name = ''dictionary'' then
        Inr (''# standard attributes'' @ [char_of (10::nat)] @
             ''VENDOR Igor 9001'' @ [char_of (10::nat)] @
             ''ATTRIBUTE User-Name 1 string'' @ [char_of (10::nat)] @
             ''ATTRIBUTE User-Password 2 string encrypt=1'' @
                [char_of (13::nat), char_of (10::nat)] @
             ''VALUE User-Name bob 7 # an enumerated value'' @ [char_of (10::nat)] @
             ''BEGIN-VENDOR Igor'' @ [char_of (10::nat)] @
             ''ATTRIBUTE Igor-Tagged 3 integer has_tag,encrypt=2'' @ [char_of (10::nat)] @
             ''END-VENDOR'')
      else if name = ''badflag'' then
        Inr (''ATTRIBUTE User-Name 1 string'' @ [char_of (10::nat)] @
             ''ATTRIBUTE Secret 2 string has_tag,encrypt=3'')
      else if name = ''badtype'' then Inr ''ATTRIBUTE Ratio 1 float''
      else if name = ''unknown'' then Inr ''ATRIBUTE User-Name 1 string''
      else if name = ''novendorid'' then Inr ''VENDOR Igor''
      else Inl ''not found'')"

definition example_dict :: jRadiusDict where
  "example_dict = \<lparr>Vendors = [], Avps = []\<rparr>"

section \<open>Properties of the Diameter peer actor\<close>

text \<open>
  C1. Processing the close command with a request still pending: the peer becomes
  Closed, the connection is closed, PeerDown is reported once and the loop returns
  (running its deferred clean-up), but nothing is sent on reply channel 3, the channel
  is not closed, and the entry for hop-by-hop identifier 7 stays in the requests map.
  The pending requests are not drained.
\<close>

theorem close_command_leaves_pending_requests:
  "eventLoop_select ChannelReady None 0
     (example_peer\<lparr>eventLoopChannel := [PeerCloseCommand]\<rparr>) =
   Ok (example_peer\<lparr>status := StatusClosed,
         trace := [ConnClose, ControlSend (PeerDownEvent None), TickerStop, ConnClose,
                   AwaitReadLoop]\<rparr>,
       Return)"
  by (simp add: eventLoop_select_def eventLoop_switch_def on_PeerClose_def deferred_def
      emit_def example_peer_def andThen_def)

text \<open>
  C2, as stated, fails: with three watchdog requests unanswered (more than the
  threshold of two), the tick queues the close command and still queues a further
  watchdog request and increments the counter to four.
\<close>

theorem watchdog_tick_over_threshold_counterexample:
  "eventLoop_switch None 9 example_peer WatchdogMsg =
   Ok (example_peer\<lparr>eventLoopChannel :=
                       [PeerCloseCommand, EgressDiameterMessage example_dwr None],
         outstandingDWA := 4\<rparr>,
       Continue)"
  by (simp add: eventLoop_switch_def on_Watchdog_def maxOustandingDWA_def chan_send_def
      EVENTLOOP_CAPACITY_def andThen_def NewInstanceDiameterRequest_def example_peer_def
      example_ci_def example_dwr_def)

text \<open>
  C2, amended. On every watchdog tick processed with room for two events in the
  event channel and a dictionary that knows the Device-Watchdog command: when more
  than two watchdog requests are unanswered the close command is queued; then, in
  both cases, a watchdog request is queued for sending and the counter of unanswered
  requests goes up by one. On the closing tick the request is queued behind the close
  command.
\<close>

theorem watchdog_tick:
  assumes "length (eventLoopChannel dp) + 2 \<le> EVENTLOOP_CAPACITY"
    and "NewInstanceDiameterRequest (ci dp) fresh ''Base'' ''Device-Watchdog'' = Inr dwr"
  shows "eventLoop_switch werr fresh dp WatchdogMsg =
     Ok (dp\<lparr>eventLoopChannel :=
              eventLoopChannel dp @ (if 2 < outstandingDWA dp then [PeerCloseCommand] else [])
                @ [EgressDiameterMessage dwr None],
            outstandingDWA := outstandingDWA dp + 1\<rparr>, Continue)"
  using assms
  by (simp add: eventLoop_switch_def on_Watchdog_def maxOustandingDWA_def chan_send_def
      andThen_def)

theorem watchdog_tick_witness:
  "length (eventLoopChannel (example_peer\<lparr>outstandingDWA := 1\<rparr>)) + 2 \<le> EVENTLOOP_CAPACITY
   \<and> NewInstanceDiameterRequest (ci (example_peer\<lparr>outstandingDWA := 1\<rparr>)) 9
         ''Base'' ''Device-Watchdog'' = Inr example_dwr
   \<and> eventLoop_switch None 9 (example_peer\<lparr>outstandingDWA := 1\<rparr>) WatchdogMsg =
       Ok (example_peer\<lparr>eventLoopChannel := [EgressDiameterMessage example_dwr None],
             outstandingDWA := 2\<rparr>, Continue)"
proof -
  have room: "length (eventLoopChannel (example_peer\<lparr>outstandingDWA := 1\<rparr>)) + 2
                \<le> EVENTLOOP_CAPACITY"
    by (simp add: example_peer_def EVENTLOOP_CAPACITY_def)
  have dwr: "NewInstanceDiameterRequest (ci (example_peer\<lparr>outstandingDWA := 1\<rparr>)) 9
               ''Base'' ''Device-Watchdog'' = Inr example_dwr"
    by (simp add: NewInstanceDiameterRequest_def example_peer_def example_ci_def
        example_dwr_def)
  show ?thesis
    using room dwr watchdog_tick [OF room dwr, of None]
    by (simp add: example_peer_def)
qed

subsection \<open>Single steps used below\<close>


lemma peer_up_step:
  assumes "watchdogTicker dp = Some running"
    and "0 < Duration (WatchdogIntervalMillis (PeerConfig dp) * Millisecond)"
  shows "eventLoop_switch werr fresh dp (PeerUpMsg host) =
     Ok (dp\<lparr>status := StatusEngaged,
           watchdogTicker := Some (Duration (WatchdogIntervalMillis (PeerConfig dp) * Millisecond)),
           trace := trace dp @ [ControlSend (PeerUpEvent host), TickerStop,
                      TickerStart (Duration (WatchdogIntervalMillis (PeerConfig dp) * Millisecond))]\<rparr>,
         Continue)"
  using assms
  by (simp add: eventLoop_switch_def on_PeerUp_def NewTicker_def andThen_def emit_def Let_def)





lemma avps_pushRoutingRules:
  "\<exists>more. avps (pushRoutingRules c rules relaySet cer) = avps cer @ more"
  by (induction c rules relaySet cer rule: pushRoutingRules.induct)
     (auto simp: Add_def split: option.splits)

lemma avps_pushCEAttributes:
  "\<exists>more. avps (pushCEAttributes dp cer) = avps cer @ more"
proof -
  obtain more where
    "avps (pushCEAttributes dp cer) =
       avps (Add ''Origin-State-Id'' (IntValue 1)
              (Add ''Firmware-Revision'' (IntValue (FirmwareRevision (ServerConf (ci dp))))
                (Add ''Product-Name'' (StringValue ''igor'')
                  (Add ''Vendor-Id'' (IntValue (VendorId (ServerConf (ci dp))))
                    (if BindAddress (ServerConf (ci dp)) \<noteq> ''0.0.0.0''
                     then Add ''Host-IP-Address'' (StringValue (BindAddress (ServerConf (ci dp)))) cer
                     else cer))))) @ more"
    using avps_pushRoutingRules unfolding pushCEAttributes_def Let_def by blast
  then show ?thesis by (auto simp: Add_def)
qed

lemma header_pushRoutingRules:
  "IsRequest (pushRoutingRules c rules relaySet cer) = IsRequest cer \<and>
   HopByHopId (pushRoutingRules c rules relaySet cer) = HopByHopId cer"
  by (induction c rules relaySet cer rule: pushRoutingRules.induct)
     (auto simp: Add_def split: option.splits)

lemma header_pushCEAttributes:
  "IsRequest (pushCEAttributes dp cer) = IsRequest cer \<and>
   HopByHopId (pushCEAttributes dp cer) = HopByHopId cer"
  by (simp add: pushCEAttributes_def Let_def header_pushRoutingRules Add_def)

lemma find_append_Some: "find P xs = Some x \<Longrightarrow> find P (xs @ ys) = Some x"
  by (induction xs) auto

lemma success_cea_result_code:
  "GetResultCode (pushCEAttributes dp
      (Add ''Result-Code'' (IntValue DIAMETER_SUCCESS) (NewInstanceDiameterAnswer c request)))
   = DIAMETER_SUCCESS"
proof -
  let ?m = "Add ''Result-Code'' (IntValue DIAMETER_SUCCESS) (NewInstanceDiameterAnswer c request)"
  obtain more where m: "avps (pushCEAttributes dp ?m) = avps ?m @ more"
    using avps_pushCEAttributes by blast
  have "find (\<lambda>a. fst a = ''Result-Code'') (avps ?m)
          = Some (''Result-Code'', IntValue DIAMETER_SUCCESS)"
    by (simp add: Add_def NewInstanceDiameterAnswer_def)
  then have "find (\<lambda>a. fst a = ''Result-Code'') (avps (pushCEAttributes dp ?m))
          = Some (''Result-Code'', IntValue DIAMETER_SUCCESS)"
    unfolding m by (rule find_append_Some)
  then show ?thesis by (simp add: GetResultCode_def GetAVP_def)
qed

lemma error_cea_result_code:
  "GetResultCode (Add ''Result-Code'' (IntValue DIAMETER_UNKNOWN_PEER)
                    (NewInstanceDiameterAnswer c request)) = DIAMETER_UNKNOWN_PEER"
  by (simp add: GetResultCode_def GetAVP_def Add_def NewInstanceDiameterAnswer_def)

lemma handleCER_cases:
  assumes "length (eventLoopChannel dp) < EVENTLOOP_CAPACITY"
  shows "handleCER dp request =
    (if status dp \<noteq> StatusConnected
     then Ok (dp, Inl ''received CER when status in not connected'')
     else case GetAVP request ''Origin-Host'' of
        Inl e \<Rightarrow> Ok (dp, Inl ''Bad CEA'')
      | Inr v \<Rightarrow>
         (case connection dp of
            None \<Rightarrow> Panic ''nil pointer dereference''
          | Some addr \<Rightarrow>
             (if ValidateIncomingAddress (ci dp) (GetString v) addr then
               (case FindPeer (ci dp) (GetString v) of
                  Some pc \<Rightarrow>
                    Ok (dp\<lparr>PeerConfig := pc,
                          eventLoopChannel := eventLoopChannel dp @
                            [EgressDiameterMessage
                               (pushCEAttributes (dp\<lparr>PeerConfig := pc\<rparr>)
                                  (Add ''Result-Code'' (IntValue DIAMETER_SUCCESS)
                                     (NewInstanceDiameterAnswer (ci dp) request))) None]\<rparr>,
                        Inr (GetString v))
                | None \<Rightarrow>
                    Ok (dp\<lparr>eventLoopChannel := eventLoopChannel dp @
                            [EgressDiameterMessage
                               (Add ''Result-Code'' (IntValue DIAMETER_UNKNOWN_PEER)
                                  (NewInstanceDiameterAnswer (ci dp) request)) None]\<rparr>,
                        Inl ''Bad CEA''))
              else Ok (dp\<lparr>eventLoopChannel := eventLoopChannel dp @
                            [EgressDiameterMessage
                               (Add ''Result-Code'' (IntValue DIAMETER_UNKNOWN_PEER)
                                  (NewInstanceDiameterAnswer (ci dp) request)) None]\<rparr>,
                        Inl ''Bad CEA''))))"
  using assms
  by (simp add: handleCER_def chan_send_def andThen_def Let_def
      split: sum.splits option.splits)

lemma cer_step:
  assumes "IsRequest m" and "ApplicationId m = 0"
    and "CommandName m = ''Capabilities-Exchange''"
  shows "eventLoop_switch werr fresh dp (IngressDiameterMessage m) =
     andThen (handleCER
                (dp\<lparr>trace := trace dp @
                   [Instrument DiameterRequestReceived (DiameterHost (PeerConfig dp)) m]\<rparr>) m)
       (\<lambda>(dp2, r). case r of
            Inl err \<Rightarrow> andThen (chan_send PeerCloseCommand dp2) (\<lambda>dp3. Ok (dp3, Continue))
          | Inr originHost \<Rightarrow>
              andThen (chan_send (PeerUpMsg originHost) (dp2\<lparr>status := StatusEngaged\<rparr>))
                (\<lambda>dp3. Ok (dp3, Continue)))"
  using assms
  by (simp add: eventLoop_switch_def on_Ingress_def on_IngressRequest_def emit_def Let_def)

text \<open>
  C4, as stated, fails: a Capabilities-Exchange request without an Origin-Host AVP,
  received in status Connected, only queues the close command. No answer is queued,
  so no Result-Code DIAMETER_UNKNOWN_PEER is sent.
\<close>

theorem capabilities_exchange_request_without_origin_host_counterexample:
  "eventLoop_switch None 0 (example_peer\<lparr>status := StatusConnected\<rparr>)
     (IngressDiameterMessage (example_ce True [])) =
   Ok (example_peer\<lparr>status := StatusConnected,
         trace := [Instrument DiameterRequestReceived ''client.igor'' (example_ce True [])],
         eventLoopChannel := [PeerCloseCommand]\<rparr>,
       Continue)"
  by (simp add: eventLoop_switch_def on_Ingress_def on_IngressRequest_def handleCER_def
      GetAVP_def chan_send_def andThen_def emit_def Let_def EVENTLOOP_CAPACITY_def
      example_ce_def example_peer_def example_peerconf_def)

text \<open>
  C4, amended. A Capabilities-Exchange request is received by a peer that has a
  connection and room for two more events in its event channel.
  \<^item> Status not Connected, or no Origin-Host AVP: the close command is queued and
    nothing else; no answer is sent.
  \<^item> Status Connected and Origin-Host present, but the address check fails or the
    Origin-Host is not in the peers configuration: an answer with Result-Code
    DIAMETER_UNKNOWN_PEER is queued for sending, and the close command behind it.
  \<^item> Otherwise: the peer takes the configuration found, becomes Engaged, and
    queues an answer with Result-Code DIAMETER_SUCCESS followed by a PeerUp message
    with the remote Origin-Host; that message, when processed by a peer whose ticker
    is running and whose configured watchdog interval is a positive duration, reports
    PeerUp with this Origin-Host on the control channel, restarts the ticker and
    leaves the loop running.
\<close>

theorem capabilities_exchange_request:
  assumes "IsRequest m" and "ApplicationId m = 0"
    and "CommandName m = ''Capabilities-Exchange''"
    and "length (eventLoopChannel dp) + 2 \<le> EVENTLOOP_CAPACITY"
    and "connection dp = Some addr"
  shows
    "eventLoop_switch werr fresh dp (IngressDiameterMessage m) =
       (if status dp \<noteq> StatusConnected then
          Ok (dp\<lparr>trace := trace dp @
                   [Instrument DiameterRequestReceived (DiameterHost (PeerConfig dp)) m],
                eventLoopChannel := eventLoopChannel dp @ [PeerCloseCommand]\<rparr>, Continue)
        else case GetAVP m ''Origin-Host'' of
          Inl e \<Rightarrow>
            Ok (dp\<lparr>trace := trace dp @
                     [Instrument DiameterRequestReceived (DiameterHost (PeerConfig dp)) m],
                  eventLoopChannel := eventLoopChannel dp @ [PeerCloseCommand]\<rparr>, Continue)
        | Inr v \<Rightarrow>
            (case (if ValidateIncomingAddress (ci dp) (GetString v) addr
                   then FindPeer (ci dp) (GetString v) else None) of
               None \<Rightarrow>
                 Ok (dp\<lparr>trace := trace dp @
                          [Instrument DiameterRequestReceived (DiameterHost (PeerConfig dp)) m],
                       eventLoopChannel := eventLoopChannel dp @
                          [EgressDiameterMessage
                             (Add ''Result-Code'' (IntValue DIAMETER_UNKNOWN_PEER)
                                (NewInstanceDiameterAnswer (ci dp) m)) None,
                           PeerCloseCommand]\<rparr>, Continue)
             | Some pc \<Rightarrow>
                 Ok (dp\<lparr>trace := trace dp @
                          [Instrument DiameterRequestReceived (DiameterHost (PeerConfig dp)) m],
                       PeerConfig := pc,
                       status := StatusEngaged,
                       eventLoopChannel := eventLoopChannel dp @
                          [EgressDiameterMessage
                             (pushCEAttributes (dp\<lparr>PeerConfig := pc\<rparr>)
                                (Add ''Result-Code'' (IntValue DIAMETER_SUCCESS)
                                   (NewInstanceDiameterAnswer (ci dp) m))) None,
                           PeerUpMsg (GetString v)]\<rparr>, Continue)))
     \<and> GetResultCode (Add ''Result-Code'' (IntValue DIAMETER_UNKNOWN_PEER)
                         (NewInstanceDiameterAnswer (ci dp) m)) = DIAMETER_UNKNOWN_PEER
     \<and> GetResultCode (pushCEAttributes dp'
                         (Add ''Result-Code'' (IntValue DIAMETER_SUCCESS)
                            (NewInstanceDiameterAnswer (ci dp) m))) = DIAMETER_SUCCESS
     \<and> (watchdogTicker dp'' = Some running \<and>
        0 < Duration (WatchdogIntervalMillis (PeerConfig dp'') * Millisecond) \<longrightarrow>
        eventLoop_switch werr' fresh' dp'' (PeerUpMsg host) =
          Ok (dp''\<lparr>status := StatusEngaged,
                 watchdogTicker :=
                   Some (Duration (WatchdogIntervalMillis (PeerConfig dp'') * Millisecond)),
                 trace := trace dp'' @ [ControlSend (PeerUpEvent host), TickerStop,
                            TickerStart
                              (Duration (WatchdogIntervalMillis (PeerConfig dp'') * Millisecond))]\<rparr>,
              Continue))"
proof -
  let ?dp1 = "dp\<lparr>trace := trace dp @
                   [Instrument DiameterRequestReceived (DiameterHost (PeerConfig dp)) m]\<rparr>"
  have room1: "length (eventLoopChannel ?dp1) < EVENTLOOP_CAPACITY"
    using assms(4) by simp
  have room2: "Suc (length (eventLoopChannel dp)) < EVENTLOOP_CAPACITY"
    using assms(4) by simp
  have first: "eventLoop_switch werr fresh dp (IngressDiameterMessage m) =
       (if status dp \<noteq> StatusConnected then
          Ok (dp\<lparr>trace := trace dp @
                   [Instrument DiameterRequestReceived (DiameterHost (PeerConfig dp)) m],
                eventLoopChannel := eventLoopChannel dp @ [PeerCloseCommand]\<rparr>, Continue)
        else case GetAVP m ''Origin-Host'' of
          Inl e \<Rightarrow>
            Ok (dp\<lparr>trace := trace dp @
                     [Instrument DiameterRequestReceived (DiameterHost (PeerConfig dp)) m],
                  eventLoopChannel := eventLoopChannel dp @ [PeerCloseCommand]\<rparr>, Continue)
        | Inr v \<Rightarrow>
            (case (if ValidateIncomingAddress (ci dp) (GetString v) addr
                   then FindPeer (ci dp) (GetString v) else None) of
               None \<Rightarrow>
                 Ok (dp\<lparr>trace := trace dp @
                          [Instrument DiameterRequestReceived (DiameterHost (PeerConfig dp)) m],
                       eventLoopChannel := eventLoopChannel dp @
                          [EgressDiameterMessage
                             (Add ''Result-Code'' (IntValue DIAMETER_UNKNOWN_PEER)
                                (NewInstanceDiameterAnswer (ci dp) m)) None,
                           PeerCloseCommand]\<rparr>, Continue)
             | Some pc \<Rightarrow>
                 Ok (dp\<lparr>trace := trace dp @
                          [Instrument DiameterRequestReceived (DiameterHost (PeerConfig dp)) m],
                       PeerConfig := pc,
                       status := StatusEngaged,
                       eventLoopChannel := eventLoopChannel dp @
                          [EgressDiameterMessage
                             (pushCEAttributes (dp\<lparr>PeerConfig := pc\<rparr>)
                                (Add ''Result-Code'' (IntValue DIAMETER_SUCCESS)
                                   (NewInstanceDiameterAnswer (ci dp) m))) None,
                           PeerUpMsg (GetString v)]\<rparr>, Continue)))"
    unfolding cer_step [OF assms(1,2,3)] handleCER_cases [OF room1]
    using room1 room2 assms(5)
    by (simp add: chan_send_def andThen_def pushCEAttributes_def
        split: sum.splits option.splits)
  show ?thesis
    using first error_cea_result_code success_cea_result_code peer_up_step by simp
qed


theorem capabilities_exchange_request_witness:
  "IsRequest (example_ce True [(''Origin-Host'', StringValue ''other.igor'')])
   \<and> ApplicationId (example_ce True [(''Origin-Host'', StringValue ''other.igor'')]) = 0
   \<and> CommandName (example_ce True [(''Origin-Host'', StringValue ''other.igor'')])
       = ''Capabilities-Exchange''
   \<and> length (eventLoopChannel (example_peer\<lparr>status := StatusConnected\<rparr>)) + 2
       \<le> EVENTLOOP_CAPACITY
   \<and> connection (example_peer\<lparr>status := StatusConnected\<rparr>) = Some ''10.0.0.1''
   \<and> eventLoop_switch None 0 (example_peer\<lparr>status := StatusConnected\<rparr>)
        (IngressDiameterMessage (example_ce True [(''Origin-Host'', StringValue ''other.igor'')]))
       = Ok (example_peer\<lparr>status := StatusConnected,
               trace := [Instrument DiameterRequestReceived ''client.igor''
                           (example_ce True [(''Origin-Host'', StringValue ''other.igor'')])],
               eventLoopChannel :=
                 [EgressDiameterMessage
                    (Add ''Result-Code'' (IntValue DIAMETER_UNKNOWN_PEER)
                       (NewInstanceDiameterAnswer example_ci
                          (example_ce True [(''Origin-Host'', StringValue ''other.igor'')])))
                    None,
                  PeerCloseCommand]\<rparr>, Continue)
   \<and> GetResultCode (Add ''Result-Code'' (IntValue DIAMETER_UNKNOWN_PEER)
                       (NewInstanceDiameterAnswer example_ci
                          (example_ce True [(''Origin-Host'', StringValue ''other.igor'')])))
       = 3010"
proof -
  let ?m = "example_ce True [(''Origin-Host'', StringValue ''other.igor'')]"
  let ?dp = "example_peer\<lparr>status := StatusConnected\<rparr>"
  have h1: "IsRequest ?m" by (simp add: example_ce_def)
  have h2: "ApplicationId ?m = 0" by (simp add: example_ce_def)
  have h3: "CommandName ?m = ''Capabilities-Exchange''" by (simp add: example_ce_def)
  have h4: "length (eventLoopChannel ?dp) + 2 \<le> EVENTLOOP_CAPACITY"
    by (simp add: example_peer_def EVENTLOOP_CAPACITY_def)
  have h5: "connection ?dp = Some ''10.0.0.1''" by (simp add: example_peer_def)
  have av: "GetAVP ?m ''Origin-Host'' = Inr (StringValue ''other.igor'')"
    by (simp add: GetAVP_def example_ce_def)
  have va: "\<not> ValidateIncomingAddress (ci ?dp) (GetString (StringValue ''other.igor'')) ''10.0.0.1''"
    by (simp add: example_peer_def example_ci_def GetString_def)
  have c: "ci ?dp = example_ci" by (simp add: example_peer_def)
  have t: "trace ?dp = []" "eventLoopChannel ?dp = []"
          "DiameterHost (PeerConfig ?dp) = ''client.igor''"
    by (simp_all add: example_peer_def example_peerconf_def)
  have u: "DIAMETER_UNKNOWN_PEER = 3010" by (simp add: DIAMETER_UNKNOWN_PEER_def)
  from capabilities_exchange_request [OF h1 h2 h3 h4 h5,
         where werr = None and fresh = 0 and dp' = "?dp" and dp'' = "?dp"
           and host = "''x''" and werr' = None and fresh' = 0 and running = 0]
  have r: "eventLoop_switch None 0 ?dp (IngressDiameterMessage ?m) =
        Ok (?dp\<lparr>trace := trace ?dp @ [Instrument DiameterRequestReceived
                                          (DiameterHost (PeerConfig ?dp)) ?m],
               eventLoopChannel := eventLoopChannel ?dp @
                 [EgressDiameterMessage
                    (Add ''Result-Code'' (IntValue DIAMETER_UNKNOWN_PEER)
                       (NewInstanceDiameterAnswer (ci ?dp) ?m)) None,
                  PeerCloseCommand]\<rparr>, Continue)"
    and g: "GetResultCode (Add ''Result-Code'' (IntValue DIAMETER_UNKNOWN_PEER)
                         (NewInstanceDiameterAnswer (ci ?dp) ?m)) = DIAMETER_UNKNOWN_PEER"
    using av va by simp_all
  show ?thesis
    using h1 h2 h3 h4 h5 r g unfolding c t u by simp
qed

text \<open>
  C5, as stated, fails: the peer is Closing, identifier 7 is a key of the requests
  map, and a request with identifier 7 and reply channel 5 is to be sent. The message
  is not written and the map is unchanged, but nothing is delivered on the reply
  channel either: the peer is left exactly as it was.
\<close>

theorem duplicate_hop_by_hop_id_while_closing_counterexample:
  "eventLoop_switch None 0 (example_peer\<lparr>status := StatusClosing\<rparr>)
     (EgressDiameterMessage (example_app True 7) (Some 5)) =
   Ok (example_peer\<lparr>status := StatusClosing\<rparr>, Continue)"
  by (simp add: eventLoop_switch_def on_Egress_def)

text \<open>
  C5, amended. An egress message with a reply channel whose hop-by-hop identifier is
  already a key of the requests map: while the status is Connected or Engaged, and
  the caller is still receiving on that reply channel, the loop delivers the
  duplicate-identifier error on it and does nothing else (no write to the socket, map
  unchanged); in any other status the message is dropped with no delivery at all (no
  write, map unchanged).
\<close>

theorem duplicate_hop_by_hop_id:
  assumes "requestsMap dp (HopByHopId m) = Some other"
  shows "((status dp = StatusConnected \<or> status dp = StatusEngaged) \<and> listening dp ch \<longrightarrow>
           eventLoop_switch werr fresh dp (EgressDiameterMessage m (Some ch)) =
             Ok (dp\<lparr>listening := (listening dp)(ch := False),
                   trace := trace dp @ [RChanSend ch (ReplyError ''Duplicated HopByHopId'')]\<rparr>,
                 Continue))
       \<and> (status dp \<noteq> StatusConnected \<and> status dp \<noteq> StatusEngaged \<longrightarrow>
           eventLoop_switch werr fresh dp (EgressDiameterMessage m (Some ch)) =
             Ok (dp, Continue))"
  using assms
  by (auto simp: eventLoop_switch_def on_Egress_def rchan_send_def andThen_def emit_def)

theorem duplicate_hop_by_hop_id_witness:
  "requestsMap example_peer (HopByHopId (example_app True 7)) = Some 3
   \<and> status example_peer = StatusEngaged
   \<and> listening example_peer 5
   \<and> eventLoop_switch None 0 example_peer (EgressDiameterMessage (example_app True 7) (Some 5))
     = Ok (example_peer\<lparr>listening := (listening example_peer)(5 := False),
             trace := [RChanSend 5 (ReplyError ''Duplicated HopByHopId'')]\<rparr>,
           Continue)"
proof -
  have h: "requestsMap example_peer (HopByHopId (example_app True 7)) = Some 3"
    by (simp add: example_peer_def example_app_def)
  have s: "status example_peer = StatusEngaged" "listening example_peer 5"
    "trace example_peer = []"
    by (simp_all add: example_peer_def)
  show ?thesis
    using h s duplicate_hop_by_hop_id [OF h, of 5 None 0]
    by simp
qed









section \<open>Properties of the RADIUS server\<close>

text \<open>
  C9. One datagram in the read loop of the RADIUS server.
  \<^item> The sending IP is not in the clients table: the packet is dropped and a drop is
    recorded.
  \<^item> The packet does not decode: it is dropped.
  \<^item> The code is not Access-Request and the request authenticator does not validate
    against the client's secret: the packet is dropped (and a drop recorded).
  \<^item> The code is not Access-Request and the authenticator validates: the request is
    recorded and a goroutine is started with the packet, the secret and the address.
  \<^item> The code is Access-Request: the same, whatever the authenticator validation
    would say; it is not consulted.
  \<^item> In the goroutine, when the handler succeeds and the response serialises, the
    serialised response is written to the originating address.
  \<^item> When the handler fails, or the response does not serialise, nothing is written
    and a drop is recorded.
\<close>

theorem radius_read_loop_pass:
  "(radiusClients rs (IP clientAddr) = Inl e \<longrightarrow>
      readLoop_pass core rs (ReadOk datagram clientAddr) =
        Again [RecordRadiusServerDrop (IP clientAddr) ''0''])
   \<and> (radiusClients rs (IP clientAddr) = Inr client \<and>
       NewRadiusPacketFromBytes core (take 4096 datagram) (Secret client) Zero_authenticator
         = Inl e \<longrightarrow>
      readLoop_pass core rs (ReadOk datagram clientAddr) = Again [])
   \<and> (radiusClients rs (IP clientAddr) = Inr client \<and>
       NewRadiusPacketFromBytes core (take 4096 datagram) (Secret client) Zero_authenticator
         = Inr packet \<and>
       Code_rp packet \<noteq> ACCESS_REQUEST \<and>
       \<not> ValidateRequestAuthenticator core (take 4096 datagram) (Secret client) \<longrightarrow>
      readLoop_pass core rs (ReadOk datagram clientAddr) =
        Again [RecordRadiusServerDrop (IP clientAddr) (Itoa (uint (Code_rp packet)))])
   \<and> (radiusClients rs (IP clientAddr) = Inr client \<and>
       NewRadiusPacketFromBytes core (take 4096 datagram) (Secret client) Zero_authenticator
         = Inr packet \<and>
       Code_rp packet \<noteq> ACCESS_REQUEST \<and>
       ValidateRequestAuthenticator core (take 4096 datagram) (Secret client) \<longrightarrow>
      readLoop_pass core rs (ReadOk datagram clientAddr) =
        Again [RecordRadiusServerRequest (IP clientAddr) (Itoa (uint (Code_rp packet))),
               Go packet (Secret client) clientAddr])
   \<and> (radiusClients rs (IP clientAddr) = Inr client \<and>
       NewRadiusPacketFromBytes core (take 4096 datagram) (Secret client) Zero_authenticator
         = Inr packet \<and>
       Code_rp packet = ACCESS_REQUEST \<longrightarrow>
      readLoop_pass (core\<lparr>ValidateRequestAuthenticator := validate\<rparr>) rs
          (ReadOk datagram clientAddr) =
        Again [RecordRadiusServerRequest (IP clientAddr) (Itoa (uint (Code_rp packet))),
               Go packet (Secret client) clientAddr])
   \<and> (handler rs packet = Inr response \<and>
       ToBytes core response secret (Identifier packet) = Inr respBuf \<longrightarrow>
      serve core rs werr packet secret addr =
        SocketWriteTo respBuf addr #
          (case werr of
             None \<Rightarrow> [RecordRadiusServerResponse (IP addr) (Itoa (uint (Code_rp packet)))]
           | Some err \<Rightarrow> [RecordRadiusServerDrop (IP addr) (Itoa (uint (Code_rp packet)))]))
   \<and> (handler rs packet = Inl e \<or>
       (handler rs packet = Inr response \<and>
        ToBytes core response secret (Identifier packet) = Inl e) \<longrightarrow>
      serve core rs werr packet secret addr =
        [RecordRadiusServerDrop (IP addr) (Itoa (uint (Code_rp packet)))])"
  by (auto simp: readLoop_pass_def serve_def Let_def split: option.splits)

theorem radius_read_loop_pass_witness:
  "radiusClients example_server (IP \<lparr>IP = ''10.9.9.9'', UDPPort = 5\<rparr>) = Inl ''client not found''
   \<and> readLoop_pass example_core example_server
        (ReadOk (example_datagram 4 7) \<lparr>IP = ''10.9.9.9'', UDPPort = 5\<rparr>)
       = Again [RecordRadiusServerDrop ''10.9.9.9'' ''0'']
   \<and> radiusClients example_server (IP example_addr) = Inr \<lparr>Secret = ''s''\<rparr>
   \<and> NewRadiusPacketFromBytes example_core (take 4096 (example_datagram 4 0))
         (Secret \<lparr>Secret = ''s''\<rparr>) Zero_authenticator = Inr (example_packet 4 0)
   \<and> Code_rp (example_packet 4 0) \<noteq> ACCESS_REQUEST
   \<and> \<not> ValidateRequestAuthenticator example_core (take 4096 (example_datagram 4 0))
         (Secret \<lparr>Secret = ''s''\<rparr>)
   \<and> readLoop_pass example_core example_server (ReadOk (example_datagram 4 0) example_addr)
       = Again [RecordRadiusServerDrop ''192.168.0.1'' ''4'']
   \<and> handler example_server (example_packet 1 0) = Inr (example_packet 2 0)
   \<and> ToBytes example_core (example_packet 2 0) ''s'' (Identifier (example_packet 1 0))
       = Inr (example_datagram 2 0)
   \<and> serve example_core example_server None (example_packet 1 0) ''s'' example_addr
       = [SocketWriteTo (example_datagram 2 0) example_addr,
          RecordRadiusServerResponse ''192.168.0.1'' ''1'']"
proof -
  have a: "radiusClients example_server (IP \<lparr>IP = ''10.9.9.9'', UDPPort = 5\<rparr>)
             = Inl ''client not found''"
    by (simp add: example_server_def)
  have b: "radiusClients example_server (IP example_addr) = Inr \<lparr>Secret = ''s''\<rparr>"
    by (simp add: example_server_def example_addr_def)
  have c: "NewRadiusPacketFromBytes example_core (take 4096 (example_datagram 4 0))
         (Secret \<lparr>Secret = ''s''\<rparr>) Zero_authenticator = Inr (example_packet 4 0)"
    by (simp add: example_core_def example_datagram_def example_packet_def)
  have d: "Code_rp (example_packet 4 0) \<noteq> ACCESS_REQUEST"
    by (simp add: example_packet_def ACCESS_REQUEST_def)
  have e: "\<not> ValidateRequestAuthenticator example_core (take 4096 (example_datagram 4 0))
         (Secret \<lparr>Secret = ''s''\<rparr>)"
    by (simp add: example_core_def example_datagram_def)
  have f: "handler example_server (example_packet 1 0) = Inr (example_packet 2 0)"
    by (simp add: example_server_def example_packet_def)
  have g: "ToBytes example_core (example_packet 2 0) ''s'' (Identifier (example_packet 1 0))
       = Inr (example_datagram 2 0)"
    by (simp add: example_core_def example_packet_def example_datagram_def)
  have i4: "Itoa (uint (Code_rp (example_packet 4 0))) = ''4''"
    by (simp add: example_packet_def) code_simp
  have i1: "Itoa (uint (Code_rp (example_packet 1 0))) = ''1''"
    by (simp add: example_packet_def) code_simp
  have ip: "IP example_addr = ''192.168.0.1''" by (simp add: example_addr_def)
  note t1 = radius_read_loop_pass [where rs = example_server and core = example_core
      and clientAddr = "\<lparr>IP = ''10.9.9.9'', UDPPort = 5\<rparr>" and e = "''client not found''"
      and datagram = "example_datagram 4 7"]
  note t2 = radius_read_loop_pass [where rs = example_server and core = example_core
      and clientAddr = example_addr and client = "\<lparr>Secret = ''s''\<rparr>"
      and datagram = "example_datagram 4 0" and packet = "example_packet 4 0"]
  note t3 = radius_read_loop_pass [where rs = example_server and core = example_core
      and packet = "example_packet 1 0" and response = "example_packet 2 0"
      and secret = "''s''" and respBuf = "example_datagram 2 0" and werr = None
      and addr = example_addr]
  have r1: "readLoop_pass example_core example_server
        (ReadOk (example_datagram 4 7) \<lparr>IP = ''10.9.9.9'', UDPPort = 5\<rparr>)
       = Again [RecordRadiusServerDrop ''10.9.9.9'' ''0'']"
    using t1 a by simp
  have r2: "readLoop_pass example_core example_server (ReadOk (example_datagram 4 0) example_addr)
       = Again [RecordRadiusServerDrop ''192.168.0.1'' ''4'']"
    using t2 b c d e i4 ip by simp
  have r3: "serve example_core example_server None (example_packet 1 0) ''s'' example_addr
       = [SocketWriteTo (example_datagram 2 0) example_addr,
          RecordRadiusServerResponse ''192.168.0.1'' ''1'']"
    using t3 f g i1 ip by simp
  show ?thesis using a b c d e f g r1 r2 r3 by simp
qed


lemma readLoop_returned:
  "readLoop core sch rs acc = (rs', acc', Returned) \<Longrightarrow>
   status_rs rs' = StatusTerminated \<and> (status_rs rs = StatusTerminated \<or> CloseCalled \<in> set sch)"
proof (induction core sch rs acc rule: readLoop.induct)
  case (1 core rs acc)
  then show ?case by simp
next
  case (2 core rest rs acc)
  then show ?case by simp
next
  case (3 core rd rest rs acc)
  show ?case
  proof (cases "readLoop_pass core rs (ReadFrom rs rd)")
    case (Again effs)
    with 3 show ?thesis by simp
  next
    case Return_rs
    then have "status_rs rs = StatusTerminated"
      by (auto simp: readLoop_pass_def Let_def
          split: read_result.splits sum.splits if_splits)
    with 3 Return_rs show ?thesis by simp
  next
    case (Panic_rs err)
    with 3 show ?thesis by simp
  qed
qed

text \<open>
  C10. A read error while the status is Operational makes the read loop panic with
  that error; with the status Terminated the loop returns. So a loop on an open socket
  of an Operational server panics at a read error, after \<open>Close\<close> the next read
  makes it return, and whenever the loop returns the status is Terminated: it was so
  from the start or \<open>Close\<close> was called.
\<close>

theorem read_error_panics_unless_terminated:
  "(status_rs rs = StatusOperational \<longrightarrow> readLoop_pass core rs (ReadErr err) = Panic_rs err)
   \<and> (status_rs rs = StatusTerminated \<longrightarrow> readLoop_pass core rs (ReadErr err) = Return_rs)
   \<and> (status_rs rs = StatusOperational \<and> socketClosed rs = False \<longrightarrow>
        readLoop core (SocketRead (ReadErr err) # rest) rs acc = (rs, acc, Panicked err))
   \<and> (readLoop core (CloseCalled # SocketRead rd # rest) rs acc = (Close rs, acc, Returned))
   \<and> (readLoop core sch rs acc = (rs', acc', Returned) \<longrightarrow>
        status_rs rs' = StatusTerminated \<and>
        (status_rs rs = StatusTerminated \<or> CloseCalled \<in> set sch))"
  using readLoop_returned [of core sch rs acc rs' acc']
  by (auto simp: readLoop_pass_def ReadFrom_def Close_def StatusOperational_def
      StatusTerminated_def)


theorem read_error_panics_unless_terminated_witness:
  "status_rs example_server = StatusOperational
   \<and> socketClosed example_server = False
   \<and> readLoop_pass example_core example_server (ReadErr ''read failed'') = Panic_rs ''read failed''
   \<and> readLoop example_core [SocketRead (ReadErr ''read failed'')] example_server []
        = (example_server, [], Panicked ''read failed'')
   \<and> status_rs (Close example_server) = StatusTerminated
   \<and> readLoop_pass example_core (Close example_server) (ReadErr ''closed'') = Return_rs"
proof -
  have a: "status_rs example_server = StatusOperational" "socketClosed example_server = False"
    by (simp_all add: example_server_def)
  have b: "status_rs (Close example_server) = StatusTerminated"
    by (simp add: Close_def)
  from read_error_panics_unless_terminated [where rs = example_server and core = example_core
      and err = "''read failed''" and rest = "[]" and acc = "[]"] a
  have r1: "readLoop_pass example_core example_server (ReadErr ''read failed'')
              = Panic_rs ''read failed''"
    and r2: "readLoop example_core [SocketRead (ReadErr ''read failed'')] example_server []
        = (example_server, [], Panicked ''read failed'')"
    by blast+
  from read_error_panics_unless_terminated [where rs = "Close example_server"
      and core = example_core and err = "''closed''"] b
  have r3: "readLoop_pass example_core (Close example_server) (ReadErr ''closed'') = Return_rs"
    by blast
  show ?thesis using a b r1 r2 r3 by simp
qed


end
